theory Spec2Isabelle
  imports Main "HOL-Library.Word" "HOL-Library.Signed_Division"
begin

unbundle bit_operations_syntax

section \<open>Machine types\<close>

text \<open>
  The sources work on \<open>uint8_t\<close> throughout.  Where C++ promotes both operands of an
  arithmetic operator to \<open>int\<close>, the model computes on \<open>uint\<close> of the operands; where a
  result is stored back into a \<open>uint8_t\<close> (or into a bit-field), the model truncates.
\<close>

type_synonym uint8_t = "8 word"

section \<open>MCU::VUState (NewVU.hpp)\<close>

text \<open>
  \<open>struct VUState { uint8_t value : 4; bool overload : 1; ... }\<close>: the value is a
  four-bit bit-field, so storing a byte keeps its low four bits.
\<close>

record VUState =
  "value" :: "4 word"
  overload :: bool

datatype Changed = NothingChanged | ValueChanged | OverloadChanged

text \<open>\<open>VUState(uint8_t value = 0, bool overload = false)\<close> with its default arguments.\<close>

definition VUState_default :: VUState where
  "VUState_default = \<lparr>value = 0, overload = False\<rparr>"

text \<open>
  \<open>Changed VUState::update(uint8_t data)\<close>: the \<open>switch\<close> with its four branches, in
  the source's order.  The method mutates the object and returns a flag, so the model
  returns the flag together with the new state.  In the default branch
  \<open>value != data\<close> compares the promoted bit-field with the whole byte.
\<close>

definition VUState_update :: "uint8_t \<Rightarrow> VUState \<Rightarrow> Changed \<times> VUState" where
  "VUState_update data s =
     (if data = 0xF then
        ((if overload s then OverloadChanged else NothingChanged), s\<lparr>overload := False\<rparr>)
      else if data = 0xE then
        ((if \<not> overload s then OverloadChanged else NothingChanged), s\<lparr>overload := True\<rparr>)
      else if data = 0xD then
        (NothingChanged, s)
      else
        ((if (ucast (value s) :: uint8_t) \<noteq> data then ValueChanged else NothingChanged),
         s\<lparr>value := ucast data\<rparr>))"

text \<open>\<open>bool VUState::decay()\<close>: subtract one from the value unless it is zero.\<close>

definition decay :: "VUState \<Rightarrow> bool \<times> VUState" where
  "decay s = (if value s = 0 then (False, s) else (True, s\<lparr>value := value s - 1\<rparr>))"

text \<open>The state after \<open>n\<close> successive calls of \<open>decay()\<close>.\<close>

fun decay_n :: "nat \<Rightarrow> VUState \<Rightarrow> VUState" where
  "decay_n 0 s = s"
| "decay_n (Suc n) s = decay_n n (snd (decay s))"

section \<open>Addresses, banks and raw messages\<close>

text \<open>
  The headers that declare \<open>MIDIAddress\<close>, \<open>ChannelMessageMatcher\<close>, \<open>Bank\<close> and
  \<open>BaseBankConfig\<close> are not among these sources.  The matchers only use the members
  modelled in this section, each from what the spec says about it.
\<close>

text \<open>
  Modelled from the spec: \<open>MIDIAddress\<close> (section 3, Address) has a number in
  \<open>[0,127]\<close>, a channel and a cable in \<open>[0,15]\<close> each, and a validity flag that tells
  the distinguished invalid value.  The field widths keep the three ranges.
\<close>

record MIDIAddress =
  valid :: bool
  number :: "7 word"
  channel :: "4 word"
  cable :: "4 word"

text \<open>Modelled from the spec: \<open>isValid()\<close>, the queryable validity of an address.\<close>

definition isValid :: "MIDIAddress \<Rightarrow> bool" where
  "isValid a = valid a"

text \<open>Modelled from the spec: \<open>getAddress()\<close>, the number field as a \<open>uint8_t\<close>.\<close>

definition getAddress :: "MIDIAddress \<Rightarrow> uint8_t" where
  "getAddress a = ucast (number a)"

text \<open>Modelled from the spec: \<open>getChannel()\<close>, the channel, compared for equality only.\<close>

definition getChannel :: "MIDIAddress \<Rightarrow> 4 word" where
  "getChannel a = channel a"

text \<open>Modelled from the spec: \<open>getRawChannel()\<close>, the channel field as a \<open>uint8_t\<close>.\<close>

definition getRawChannel :: "MIDIAddress \<Rightarrow> uint8_t" where
  "getRawChannel a = ucast (channel a)"

text \<open>Modelled from the spec: \<open>getCableNumber()\<close>, the cable, compared for equality only.\<close>

definition getCableNumber :: "MIDIAddress \<Rightarrow> 4 word" where
  "getCableNumber a = cable a"

text \<open>Modelled from the spec: \<open>getRawCableNumber()\<close>, the cable field as a \<open>uint8_t\<close>.\<close>

definition getRawCableNumber :: "MIDIAddress \<Rightarrow> uint8_t" where
  "getRawCableNumber a = ucast (cable a)"

text \<open>
  Modelled from the spec: the constructor \<open>MIDIAddress{number, channelCN}\<close> that the
  VU matchers and \<open>getAddress()\<close> of a message use.  It builds a valid address; the
  number is stored in seven bits.
\<close>

definition MIDIAddress_of :: "uint8_t \<Rightarrow> 4 word \<times> 4 word \<Rightarrow> MIDIAddress" where
  "MIDIAddress_of a cn = \<lparr>valid = True, number = ucast a, channel = fst cn, cable = snd cn\<rparr>"

text \<open>
  Modelled from the spec: \<open>MIDIAddress::matchSingle\<close> (section 4.1), the exact comparison
  of the fields of two addresses; matching against an invalid address fails (section 7).
\<close>

definition matchSingle :: "MIDIAddress \<Rightarrow> MIDIAddress \<Rightarrow> bool" where
  "matchSingle toMatch base \<longleftrightarrow>
     valid toMatch \<and> valid base \<and> number toMatch = number base \<and>
     channel toMatch = channel base \<and> cable toMatch = cable base"

text \<open>
  Modelled from the spec: \<open>MIDIAddress::matchAddressInRange\<close> (section 4.1),
  \<open>base \<le> address < base + length\<close> on the same channel and cable, for valid addresses.
\<close>

definition matchAddressInRange :: "MIDIAddress \<Rightarrow> MIDIAddress \<Rightarrow> uint8_t \<Rightarrow> bool" where
  "matchAddressInRange toMatch base len \<longleftrightarrow>
     valid toMatch \<and> valid base \<and>
     uint (number base) \<le> uint (number toMatch) \<and>
     uint (number toMatch) < uint (number base) + uint len \<and>
     channel toMatch = channel base \<and> cable toMatch = cable base"

text \<open>
  Modelled from the spec: \<open>MIDIMessageType\<close>, the message-type tag of a channel message.
  The matchers only compare it with \<open>NOTE_OFF\<close>.
\<close>

datatype MIDIMessageType =
  NOTE_OFF | NOTE_ON | KEY_PRESSURE | CONTROL_CHANGE | PROGRAM_CHANGE | CHANNEL_PRESSURE
  | PITCH_BEND

text \<open>
  Modelled from the spec: the raw message handed to a matcher
  (\<open>ChannelMessageMatcher\<close>; section 3, RawChannelMessage): a message type, two data
  bytes, a channel and a cable.  The members \<open>channel\<close> and \<open>cable\<close> carry a prefix,
  being named as the fields of an address.
\<close>

record ChannelMessageMatcher =
  type :: MIDIMessageType
  msg_channel :: "4 word"
  data1 :: uint8_t
  data2 :: uint8_t
  msg_cable :: "4 word"

text \<open>Modelled from the spec: \<open>getChannelCN()\<close>, the channel and cable of a message.\<close>

definition getChannelCN :: "ChannelMessageMatcher \<Rightarrow> 4 word \<times> 4 word" where
  "getChannelCN m = (msg_channel m, msg_cable m)"

text \<open>
  Modelled from the spec: \<open>getAddress()\<close> of a message, the valid address made of
  \<open>data1\<close>, the channel and the cable.
\<close>

definition msg_getAddress :: "ChannelMessageMatcher \<Rightarrow> MIDIAddress" where
  "msg_getAddress m = MIDIAddress_of (data1 m) (getChannelCN m)"

text \<open>
  Modelled from the spec: \<open>BankType\<close> (section 3), which field of an address changes
  from one bank setting to the next.  With these three values the \<open>default\<close> branches
  of the switches below are never taken.
\<close>

datatype BankType = CHANGE_ADDRESS | CHANGE_CHANNEL | CHANGE_CABLENB

text \<open>
  Modelled from the spec: \<open>Bank<BankSize>\<close> (section 3, BankConfiguration).  The template
  parameter \<open>uint8_t BankSize\<close> is a field here; \<open>getTracksPerBank()\<close> and
  \<open>getSelection()\<close> read the other two.  The selection is owned and written outside
  these sources.
\<close>

record Bank =
  BankSize :: uint8_t
  tracksPerBank :: uint8_t
  selection :: uint8_t

text \<open>
  Modelled from the spec: \<open>BaseBankConfig<BankSize>\<close>, a bank and its bank type
  (\<open>config.bank\<close>, \<open>config.type\<close>; \<open>type\<close> is taken by the message above).
\<close>

record BaseBankConfig =
  bank :: Bank
  bankType :: BankType

section \<open>BankableMIDIMatcherHelpers (MIDIInputElementMatchers.hpp)\<close>

text \<open>
  \<open>getBankIndex(target, base, config)\<close>.  The operands of \<open>-\<close> and \<open>/\<close> are promoted
  to \<open>int\<close>, the quotient truncates towards zero and is cut to eight bits on return.
  Division by \<open>nt = 0\<close> is undefined in C++: the model returns \<open>None\<close> there.
\<close>

definition getBankIndex :: "MIDIAddress \<Rightarrow> MIDIAddress \<Rightarrow> BaseBankConfig \<Rightarrow> uint8_t option" where
  "getBankIndex target base config =
     (let nt = tracksPerBank (bank config) in
      if nt = 0 then None
      else Some (case bankType config of
          CHANGE_ADDRESS \<Rightarrow>
            word_of_int ((uint (getAddress target) - uint (getAddress base)) sdiv uint nt)
        | CHANGE_CHANNEL \<Rightarrow>
            word_of_int ((uint (getRawChannel target) - uint (getRawChannel base)) sdiv uint nt)
        | CHANGE_CABLENB \<Rightarrow>
            word_of_int ((uint (getRawCableNumber target) - uint (getRawCableNumber base))
                          sdiv uint nt)))"

text \<open>
  \<open>matchBankable(uint8_t toMatch, uint8_t base, const Bank<BankSize> &bank)\<close>.
  \<open>diff\<close> is a \<open>uint8_t\<close>, so the subtraction wraps; the product
  \<open>BankSize * getTracksPerBank()\<close> is computed on \<open>int\<close> and does not.  With
  \<open>tracksPerBank = 0\<close> the second conjunct is false, so the \<open>%\<close> of the third is
  never evaluated by the short-circuiting \<open>&&\<close>.
\<close>

definition matchBankable_u8 :: "uint8_t \<Rightarrow> uint8_t \<Rightarrow> Bank \<Rightarrow> bool" where
  "matchBankable_u8 toMatch base bnk \<longleftrightarrow>
     (let diff = toMatch - base in
      toMatch \<ge> base \<and>
      uint diff < uint (BankSize bnk) * uint (tracksPerBank bnk) \<and>
      diff mod tracksPerBank bnk = 0)"

text \<open>\<open>matchBankable(MIDIAddress toMatch, MIDIAddress base, BaseBankConfig<BankSize> config)\<close>.\<close>

definition matchBankable :: "MIDIAddress \<Rightarrow> MIDIAddress \<Rightarrow> BaseBankConfig \<Rightarrow> bool" where
  "matchBankable toMatch base config \<longleftrightarrow>
     (if \<not> isValid toMatch \<or> \<not> isValid base then False
      else case bankType config of
          CHANGE_ADDRESS \<Rightarrow>
            getChannel toMatch = getChannel base \<and>
            getCableNumber toMatch = getCableNumber base \<and>
            matchBankable_u8 (getAddress toMatch) (getAddress base) (bank config)
        | CHANGE_CHANNEL \<Rightarrow>
            getAddress toMatch = getAddress base \<and>
            getCableNumber toMatch = getCableNumber base \<and>
            matchBankable_u8 (getRawChannel toMatch) (getRawChannel base) (bank config)
        | CHANGE_CABLENB \<Rightarrow>
            getAddress toMatch = getAddress base \<and>
            getChannel toMatch = getChannel base \<and>
            matchBankable_u8 (getRawCableNumber toMatch) (getRawCableNumber base) (bank config))"

section \<open>The two-byte matchers (MIDIInputElementMatchers.hpp)\<close>

text \<open>
  Each matcher is a struct holding its constructor arguments; \<open>operator()\<close> reads them
  and the message.  The model passes the members as arguments.  The four \<open>Result\<close>
  structs have the same member names in the source (\<open>match\<close>, \<open>value\<close>, \<open>bankIndex\<close>,
  \<open>index\<close>); each gets a prefix here.
\<close>

record TwoByte_Result =
  tb_match :: bool
  tb_value :: uint8_t

definition TwoByteMIDIMatcher :: "MIDIAddress \<Rightarrow> ChannelMessageMatcher \<Rightarrow> TwoByte_Result" where
  "TwoByteMIDIMatcher address m =
     (if \<not> matchSingle (msg_getAddress m) address then \<lparr>tb_match = False, tb_value = 0\<rparr>
      else let v = (if type m = NOTE_OFF then 0 else data2 m)
           in \<lparr>tb_match = True, tb_value = v\<rparr>)"

record TwoByteRange_Result =
  tbr_match :: bool
  tbr_value :: uint8_t
  tbr_index :: uint8_t

definition TwoByteRangeMIDIMatcher ::
  "MIDIAddress \<Rightarrow> uint8_t \<Rightarrow> ChannelMessageMatcher \<Rightarrow> TwoByteRange_Result" where
  "TwoByteRangeMIDIMatcher address len m =
     (if \<not> matchAddressInRange (msg_getAddress m) address len
      then \<lparr>tbr_match = False, tbr_value = 0, tbr_index = 0\<rparr>
      else let v = (if type m = NOTE_OFF then 0 else data2 m);
               i = data1 m - getAddress address
           in \<lparr>tbr_match = True, tbr_value = v, tbr_index = i\<rparr>)"

record BankableTwoByte_Result =
  btb_match :: bool
  btb_value :: uint8_t
  btb_bankIndex :: uint8_t

text \<open>
  \<open>BankableTwoByteMIDIMatcher::operator()\<close>.  The result is \<open>None\<close> where the call
  would run into the undefined division of \<open>getBankIndex\<close>.
\<close>

definition BankableTwoByteMIDIMatcher ::
  "BaseBankConfig \<Rightarrow> MIDIAddress \<Rightarrow> ChannelMessageMatcher \<Rightarrow> BankableTwoByte_Result option" where
  "BankableTwoByteMIDIMatcher config address m =
     (if \<not> matchBankable (msg_getAddress m) address config
      then Some \<lparr>btb_match = False, btb_value = 0, btb_bankIndex = 0\<rparr>
      else let v = (if type m = NOTE_OFF then 0 else data2 m)
           in case getBankIndex (msg_getAddress m) address config of
                None \<Rightarrow> None
              | Some bi \<Rightarrow> Some \<lparr>btb_match = True, btb_value = v, btb_bankIndex = bi\<rparr>)"

text \<open>\<open>BankableTwoByteRangeMIDIMatcher::matchBankableInRange\<close>, on the matcher's bank.\<close>

definition matchBankableInRange :: "Bank \<Rightarrow> uint8_t \<Rightarrow> uint8_t \<Rightarrow> uint8_t \<Rightarrow> bool" where
  "matchBankableInRange bnk toMatch base len \<longleftrightarrow>
     (let diff = toMatch - base in
      toMatch \<ge> base \<and>
      uint diff < uint (BankSize bnk) * uint (tracksPerBank bnk) \<and>
      diff mod tracksPerBank bnk < len)"

text \<open>
  \<open>getRangeIndex(target, base)\<close>: \<open>diff %= getTracksPerBank()\<close> is undefined for zero
  tracks per bank (\<open>None\<close>).
\<close>

definition getRangeIndex :: "BaseBankConfig \<Rightarrow> MIDIAddress \<Rightarrow> MIDIAddress \<Rightarrow> uint8_t option" where
  "getRangeIndex config target base =
     (let diff = getAddress target - getAddress base in
      if bankType config = CHANGE_ADDRESS then
        (if tracksPerBank (bank config) = 0 then None
         else Some (diff mod tracksPerBank (bank config)))
      else Some diff)"

text \<open>\<open>inRange(toMatch, base, length)\<close>: the difference is taken on \<open>int\<close>.\<close>

definition inRange :: "uint8_t \<Rightarrow> uint8_t \<Rightarrow> uint8_t \<Rightarrow> bool" where
  "inRange toMatch base len \<longleftrightarrow> base \<le> toMatch \<and> uint toMatch - uint base < uint len"

text \<open>\<open>matchBankableAddressInRange(toMatch, base)\<close>, with the matcher's config and length.\<close>

definition matchBankableAddressInRange ::
  "BaseBankConfig \<Rightarrow> uint8_t \<Rightarrow> MIDIAddress \<Rightarrow> MIDIAddress \<Rightarrow> bool" where
  "matchBankableAddressInRange config len toMatch base \<longleftrightarrow>
     (if \<not> isValid toMatch \<or> \<not> isValid base then False
      else case bankType config of
          CHANGE_ADDRESS \<Rightarrow>
            getChannel toMatch = getChannel base \<and>
            getCableNumber toMatch = getCableNumber base \<and>
            matchBankableInRange (bank config) (getAddress toMatch) (getAddress base) len
        | CHANGE_CHANNEL \<Rightarrow>
            inRange (getAddress toMatch) (getAddress base) len \<and>
            getCableNumber toMatch = getCableNumber base \<and>
            matchBankable_u8 (getRawChannel toMatch) (getRawChannel base) (bank config)
        | CHANGE_CABLENB \<Rightarrow>
            inRange (getAddress toMatch) (getAddress base) len \<and>
            getChannel toMatch = getChannel base \<and>
            matchBankable_u8 (getRawCableNumber toMatch) (getRawCableNumber base) (bank config))"

record BankableTwoByteRange_Result =
  btbr_match :: bool
  btbr_value :: uint8_t
  btbr_bankIndex :: uint8_t
  btbr_index :: uint8_t

definition BankableTwoByteRangeMIDIMatcher ::
  "BaseBankConfig \<Rightarrow> MIDIAddress \<Rightarrow> uint8_t \<Rightarrow> ChannelMessageMatcher
     \<Rightarrow> BankableTwoByteRange_Result option" where
  "BankableTwoByteRangeMIDIMatcher config address len m =
     (if \<not> matchBankableAddressInRange config len (msg_getAddress m) address
      then Some \<lparr>btbr_match = False, btbr_value = 0, btbr_bankIndex = 0, btbr_index = 0\<rparr>
      else let v = (if type m = NOTE_OFF then 0 else data2 m)
           in case getBankIndex (msg_getAddress m) address config of
                None \<Rightarrow> None
              | Some bi \<Rightarrow>
                 (case getRangeIndex config (msg_getAddress m) address of
                    None \<Rightarrow> None
                  | Some ri \<Rightarrow>
                      Some \<lparr>btbr_match = True, btbr_value = v, btbr_bankIndex = bi,
                            btbr_index = ri\<rparr>))"

section \<open>The VU matchers (NewVU.hpp)\<close>

record VU_Result =
  vu_match :: bool
  vu_data :: uint8_t

text \<open>\<open>MCU::VUMatcher::operator()\<close>: the track is the high nibble of \<open>data1\<close>.\<close>

definition VUMatcher :: "MIDIAddress \<Rightarrow> ChannelMessageMatcher \<Rightarrow> VU_Result" where
  "VUMatcher address m =
     (let track = drop_bit 4 (data1 m) in
      if \<not> matchSingle (MIDIAddress_of track (getChannelCN m)) address
      then \<lparr>vu_match = False, vu_data = 0\<rparr>
      else \<lparr>vu_match = True, vu_data = data1 m AND 0x0F\<rparr>)"

record Bankable_VU_Result =
  bvu_match :: bool
  bvu_data :: uint8_t
  bvu_bankIndex :: uint8_t

text \<open>\<open>MCU::Bankable::VUMatcher<BankSize>::operator()\<close>.\<close>

definition Bankable_VUMatcher ::
  "BaseBankConfig \<Rightarrow> MIDIAddress \<Rightarrow> ChannelMessageMatcher \<Rightarrow> Bankable_VU_Result option" where
  "Bankable_VUMatcher config address m =
     (let track = drop_bit 4 (data1 m);
          midiaddr = MIDIAddress_of track (getChannelCN m) in
      if \<not> matchBankable midiaddr address config
      then Some \<lparr>bvu_match = False, bvu_data = 0, bvu_bankIndex = 0\<rparr>
      else case getBankIndex midiaddr address config of
             None \<Rightarrow> None
           | Some bi \<Rightarrow> Some \<lparr>bvu_match = True, bvu_data = data1 m AND 0x0F, bvu_bankIndex = bi\<rparr>)"

section \<open>The decay timer\<close>

text \<open>
  The header that declares \<open>AH::Timer<millis>\<close> is not among these sources.  The spec
  (sections 1 and 4.5) asks of it an interval, a query "has at least one interval elapsed
  since the last consumption" that consumes the interval when it answers yes, and a
  restart from the current time.  The timer reads the clock itself; the model takes the
  reading \<open>now\<close> as an argument.
\<close>

type_synonym millis = "32 word"

text \<open>
  Modelled from the spec: the timer's data, its interval and the start of the running
  period, both \<open>unsigned long\<close> milliseconds (32 bits on the target).
\<close>

record Timer =
  interval :: millis
  previous :: millis

text \<open>Modelled from the spec: \<open>getInterval()\<close>.\<close>

definition getInterval :: "Timer \<Rightarrow> millis" where
  "getInterval t = interval t"

text \<open>Modelled from the spec: \<open>beginNextPeriod()\<close>, the restart from the current time.\<close>

definition beginNextPeriod :: "millis \<Rightarrow> Timer \<Rightarrow> Timer" where
  "beginNextPeriod now t = t\<lparr>previous := now\<rparr>"

text \<open>
  Modelled from the spec: the conversion of the timer to \<open>bool\<close>, the query that
  consumes one interval when at least one has elapsed.  Elapsed time is a wrapping
  difference of clock readings.
\<close>

definition Timer_elapsed :: "millis \<Rightarrow> Timer \<Rightarrow> bool \<times> Timer" where
  "Timer_elapsed now t =
     (if now - previous t \<ge> interval t
      then (True, t\<lparr>previous := previous t + interval t\<rparr>)
      else (False, t))"

text \<open>\<open>namespace VUDecay\<close> (NewVU.hpp): the two decay time constants.\<close>

definition Hold :: millis where
  "Hold = 0"

definition Default :: millis where
  "Default = 150"

section \<open>MCU::NewVU (NewVU.hpp)\<close>

text \<open>
  The element's own members: \<open>VUState state = {}\<close>, \<open>bool dirty = true\<close> and the decay
  timer.  Every method that mutates the element returns the new element.
\<close>

record NewVU =
  state :: VUState
  dirty :: bool
  decayTimer :: Timer

text \<open>\<open>NewVU::handleUpdate(VUMatcher::Result match)\<close>.\<close>

definition handleUpdate :: "millis \<Rightarrow> VU_Result \<Rightarrow> NewVU \<Rightarrow> NewVU" where
  "handleUpdate now match el =
     (let (changed, s') = VUState_update (vu_data match) (state el);
          el1 = el\<lparr>state := s'\<rparr>
      in if changed \<noteq> NothingChanged then
           (let el2 = (if changed = ValueChanged
                       then el1\<lparr>decayTimer := beginNextPeriod now (decayTimer el1)\<rparr>
                       else el1)
            in el2\<lparr>dirty := True\<rparr>)
         else el1)"

text \<open>\<open>NewVU::reset()\<close>: \<open>state = {}\<close>.\<close>

definition reset :: "NewVU \<Rightarrow> NewVU" where
  "reset el = el\<lparr>state := VUState_default\<rparr>"

text \<open>
  \<open>NewVU::update()\<close>: the timer is only asked when its interval is not \<open>Hold\<close>
  (short-circuiting \<open>&&\<close>); asking it consumes an elapsed interval.
\<close>

definition update :: "millis \<Rightarrow> NewVU \<Rightarrow> NewVU" where
  "update now el =
     (if getInterval (decayTimer el) \<noteq> Hold then
        (let (fired, tm) = Timer_elapsed now (decayTimer el);
             el1 = el\<lparr>decayTimer := tm\<rparr>
         in if fired then
              (let (changed, s') = decay (state el1)
               in el1\<lparr>state := s', dirty := (dirty el1 \<or> changed)\<rparr>)
            else el1)
      else el)"

definition getDirty :: "NewVU \<Rightarrow> bool" where
  "getDirty el = dirty el"

definition clearDirty :: "NewVU \<Rightarrow> NewVU" where
  "clearDirty el = el\<lparr>dirty := False\<rparr>"

section \<open>MCU::Bankable::NewVU (NewVU.hpp)\<close>

text \<open>
  The bankable element holds its matcher's bank configuration \<open>matcher.config\<close> (read
  by \<open>getActiveBank()\<close>) and \<open>AH::Array<VUState, BankSize> states\<close>, a list here.  The
  array type fixes the number of slots: \<open>Bankable_wf\<close> says that the list has
  \<open>BankSize\<close> of them.  The members \<open>dirty\<close> and \<open>decayTimer\<close> carry a prefix, being
  named as those of the element above.
\<close>

record Bankable_NewVU =
  matcher_config :: BaseBankConfig
  states :: "VUState list"
  b_dirty :: bool
  b_decayTimer :: Timer

definition Bankable_wf :: "Bankable_NewVU \<Rightarrow> bool" where
  "Bankable_wf el \<longleftrightarrow> length (states el) = unat (BankSize (bank (matcher_config el)))"

definition getActiveBank :: "Bankable_NewVU \<Rightarrow> uint8_t" where
  "getActiveBank el = selection (bank (matcher_config el))"

text \<open>
  \<open>Bankable::NewVU::handleUpdate(match)\<close>.  \<open>states[match.bankIndex]\<close> outside the
  array is undefined in C++: the model returns \<open>None\<close> there.
\<close>

definition Bankable_handleUpdate ::
  "millis \<Rightarrow> Bankable_VU_Result \<Rightarrow> Bankable_NewVU \<Rightarrow> Bankable_NewVU option" where
  "Bankable_handleUpdate now match el =
     (let i = unat (bvu_bankIndex match) in
      if i \<ge> length (states el) then None
      else
        (let (changed, s') = VUState_update (bvu_data match) (states el ! i);
             el1 = el\<lparr>states := (states el)[i := s']\<rparr>
         in if changed \<noteq> NothingChanged then
              (let el2 = (if changed = ValueChanged \<and> bvu_bankIndex match = getActiveBank el1
                          then el1\<lparr>b_decayTimer := beginNextPeriod now (b_decayTimer el1)\<rparr>
                          else el1)
               in Some (el2\<lparr>b_dirty := True\<rparr>))
            else Some el1))"

text \<open>
  The accessors of the active bank and of a given bank.  Reading outside the array is
  undefined (\<open>None\<close>).
\<close>

definition getPosition_bank :: "Bankable_NewVU \<Rightarrow> uint8_t \<Rightarrow> uint8_t option" where
  "getPosition_bank el b =
     (if unat b < length (states el) then Some (ucast (value (states el ! unat b))) else None)"

definition getOverload_bank :: "Bankable_NewVU \<Rightarrow> uint8_t \<Rightarrow> bool option" where
  "getOverload_bank el b =
     (if unat b < length (states el) then Some (overload (states el ! unat b)) else None)"

text \<open>\<open>Bankable::NewVU::reset()\<close>: \<open>states = {{}}; dirty = true\<close>.\<close>

definition Bankable_reset :: "Bankable_NewVU \<Rightarrow> Bankable_NewVU" where
  "Bankable_reset el =
     el\<lparr>states := replicate (unat (BankSize (bank (matcher_config el)))) VUState_default,
        b_dirty := True\<rparr>"

text \<open>
  The loop of \<open>Bankable::NewVU::update()\<close>,
  \<open>for (uint8_t i = 0; i < BankSize; ++i) dirty |= states[i].decay() && i == getActiveBank()\<close>,
  from index \<open>i\<close> on, as a function of the array and the flag.  \<open>decay()\<close> is called
  on every slot; the flag only takes the result of the active one.
\<close>

function decay_loop ::
  "nat \<Rightarrow> nat \<Rightarrow> nat \<Rightarrow> VUState list \<Rightarrow> bool \<Rightarrow> VUState list \<times> bool" where
  "decay_loop n active i sts d =
     (if i < n then
        (let (changed, s') = decay (sts ! i)
         in decay_loop n active (Suc i) (sts[i := s']) (d \<or> (changed \<and> i = active)))
      else (sts, d))"
  by pat_completeness auto
termination
  by (relation "measure (\<lambda>(n, active, i, sts, d). n - i)") auto

text \<open>The equation of the loop is unfolded by hand, one iteration at a time.\<close>

declare decay_loop.simps [simp del]

definition Bankable_update :: "millis \<Rightarrow> Bankable_NewVU \<Rightarrow> Bankable_NewVU" where
  "Bankable_update now el =
     (if getInterval (b_decayTimer el) \<noteq> Hold then
        (let (fired, tm) = Timer_elapsed now (b_decayTimer el);
             el1 = el\<lparr>b_decayTimer := tm\<rparr>
         in if fired then
              (let (sts, d) = decay_loop (unat (BankSize (bank (matcher_config el1))))
                                (unat (getActiveBank el1)) 0 (states el1) (b_dirty el1)
               in el1\<lparr>states := sts, b_dirty := d\<rparr>)
            else el1)
      else el)"

definition Bankable_getDirty :: "Bankable_NewVU \<Rightarrow> bool" where
  "Bankable_getDirty el = b_dirty el"

definition Bankable_clearDirty :: "Bankable_NewVU \<Rightarrow> Bankable_NewVU" where
  "Bankable_clearDirty el = el\<lparr>b_dirty := False\<rparr>"

section \<open>Bank membership in the words of the spec\<close>

text \<open>
  The field of an address that \<open>config.type\<close> selects, as the byte the code reads,
  and the equality of the other two fields.
\<close>

definition selectedField :: "BankType \<Rightarrow> MIDIAddress \<Rightarrow> uint8_t" where
  "selectedField ty a =
     (case ty of
        CHANGE_ADDRESS \<Rightarrow> getAddress a
      | CHANGE_CHANNEL \<Rightarrow> getRawChannel a
      | CHANGE_CABLENB \<Rightarrow> getRawCableNumber a)"

definition otherFieldsEqual :: "BankType \<Rightarrow> MIDIAddress \<Rightarrow> MIDIAddress \<Rightarrow> bool" where
  "otherFieldsEqual ty target base \<longleftrightarrow>
     (case ty of
        CHANGE_ADDRESS \<Rightarrow> channel target = channel base \<and> cable target = cable base
      | CHANGE_CHANNEL \<Rightarrow> number target = number base \<and> cable target = cable base
      | CHANGE_CABLENB \<Rightarrow> number target = number base \<and> channel target = channel base)"

text \<open>
  The spec's bank arithmetic on the selected field: the unsigned (eight-bit, as \<open>diff\<close>
  in the code) difference \<open>diff = targetField - baseField\<close> satisfies
  \<open>diff < BankSize \<times> tracksPerBank\<close> and \<open>diff mod tracksPerBank = 0\<close>.
\<close>

definition bankArithmetic_spec :: "Bank \<Rightarrow> uint8_t \<Rightarrow> uint8_t \<Rightarrow> bool" where
  "bankArithmetic_spec bnk targetField baseField \<longleftrightarrow>
     (let diff = targetField - baseField in
      unat diff < unat (BankSize bnk) * unat (tracksPerBank bnk) \<and>
      unat diff mod unat (tracksPerBank bnk) = 0)"

text \<open>
  \<open>isBankMember(target, base, config)\<close> in the spec's words (section 4.2): all fields
  other than the selected one are identical, and the bank arithmetic holds on the
  selected one.
\<close>

definition isBankMember_spec :: "MIDIAddress \<Rightarrow> MIDIAddress \<Rightarrow> BaseBankConfig \<Rightarrow> bool" where
  "isBankMember_spec target base config \<longleftrightarrow>
     otherFieldsEqual (bankType config) target base \<and>
     bankArithmetic_spec (bank config)
       (selectedField (bankType config) target) (selectedField (bankType config) base)"

text \<open>
  \<open>isBankMemberInRange(target, base, length, config)\<close> in the spec's words: when the
  address changes per bank, channel and cable are equal, \<open>diff < BankSize \<times> tracksPerBank\<close>
  and \<open>diff mod tracksPerBank < length\<close>; when the channel or the cable changes per
  bank, \<open>base.number \<le> target.number < base.number + length\<close> and the bank arithmetic
  holds on the channel or cable field.
\<close>

definition isBankMemberInRange_spec ::
  "MIDIAddress \<Rightarrow> MIDIAddress \<Rightarrow> uint8_t \<Rightarrow> BaseBankConfig \<Rightarrow> bool" where
  "isBankMemberInRange_spec target base len config \<longleftrightarrow>
     (case bankType config of
        CHANGE_ADDRESS \<Rightarrow>
          channel target = channel base \<and> cable target = cable base \<and>
          (let diff = getAddress target - getAddress base in
           unat diff < unat (BankSize (bank config)) * unat (tracksPerBank (bank config)) \<and>
           unat diff mod unat (tracksPerBank (bank config)) < unat len)
      | CHANGE_CHANNEL \<Rightarrow>
          unat (number base) \<le> unat (number target) \<and>
          unat (number target) < unat (number base) + unat len \<and>
          bankArithmetic_spec (bank config) (getRawChannel target) (getRawChannel base)
      | CHANGE_CABLENB \<Rightarrow>
          unat (number base) \<le> unat (number target) \<and>
          unat (number target) < unat (number base) + unat len \<and>
          bankArithmetic_spec (bank config) (getRawCableNumber target) (getRawCableNumber base))"

text \<open>
  The field that is neither the number nor the selected one: the cable when the channel
  changes per bank, the channel when the cable does.
\<close>

definition remainingFieldEqual :: "BankType \<Rightarrow> MIDIAddress \<Rightarrow> MIDIAddress \<Rightarrow> bool" where
  "remainingFieldEqual ty target base \<longleftrightarrow>
     (case ty of
        CHANGE_ADDRESS \<Rightarrow> True
      | CHANGE_CHANNEL \<Rightarrow> cable target = cable base
      | CHANGE_CABLENB \<Rightarrow> channel target = channel base)"

section \<open>Example inputs\<close>

text \<open>
  The bank geometry of the examples in the sources and the spec (two banks, four
  tracks per bank), an address and a message on channel 0 and cable 0.
\<close>

abbreviation ex_config :: "BankType \<Rightarrow> BaseBankConfig" where
  "ex_config ty \<equiv> \<lparr>bank = \<lparr>BankSize = 2, tracksPerBank = 4, selection = 0\<rparr>, bankType = ty\<rparr>"

abbreviation ex_address :: "7 word \<Rightarrow> MIDIAddress" where
  "ex_address n \<equiv> \<lparr>valid = True, number = n, channel = 0, cable = 0\<rparr>"

abbreviation ex_message :: "MIDIMessageType \<Rightarrow> uint8_t \<Rightarrow> uint8_t \<Rightarrow> ChannelMessageMatcher" where
  "ex_message ty d1 d2 \<equiv> \<lparr>type = ty, msg_channel = 0, data1 = d1, data2 = d2, msg_cable = 0\<rparr>"

section \<open>VUState: the protocol state machine\<close>

lemma ucast_nibble_id:
  fixes d :: uint8_t
  assumes "d \<le> 0xF"
  shows "(ucast (ucast d :: 4 word) :: uint8_t) = d"
proof -
  from assms have "unat d < 2 ^ 4"
    by (simp add: word_le_nat_alt)
  then have "take_bit 4 (unat d) = unat d"
    by (simp add: take_bit_nat_eq_self)
  then have "unat (ucast (ucast d :: 4 word) :: uint8_t) = unat d"
    by (simp add: unsigned_ucast_eq unsigned_take_bit_eq)
  then show ?thesis
    by (simp only: word_unat_eq_iff)
qed

lemma ucast_value_id: "(ucast (ucast (v :: 4 word) :: uint8_t) :: 4 word) = v"
  by (simp add: ucast_up_ucast_id is_up)

lemma nibble_neq_iff:
  fixes d :: uint8_t and v :: "4 word"
  assumes "d \<le> 0xF"
  shows "(ucast v :: uint8_t) \<noteq> d \<longleftrightarrow> ucast d \<noteq> v"
  using ucast_nibble_id [OF assms] ucast_value_id [of v] by metis

text \<open>
  C4.  For every state and every nibble in \<open>[0x0, 0xF]\<close>, \<open>VUState::update\<close> does this:
  \<open>0xF\<close> clears overload and reports \<open>OverloadChanged\<close> iff overload was set;
  \<open>0xE\<close> sets overload and reports \<open>OverloadChanged\<close> iff overload was clear;
  \<open>0xD\<close> changes nothing and reports \<open>NothingChanged\<close>;
  \<open>0x0..0xC\<close> stores the nibble as the value, leaves overload alone and reports
  \<open>ValueChanged\<close> iff the nibble differs from the prior value.
  No call changes both fields: a call that reports \<open>ValueChanged\<close> leaves overload as
  it was, one that reports \<open>OverloadChanged\<close> leaves the value as it was, and one that
  reports \<open>NothingChanged\<close> leaves the whole state as it was.
\<close>

theorem VUState_update_spec:
  fixes data :: uint8_t
  assumes "data \<le> 0xF"
  shows "(data = 0xF \<longrightarrow>
            VUState_update data s =
              ((if overload s then OverloadChanged else NothingChanged),
               \<lparr>value = value s, overload = False\<rparr>))
       \<and> (data = 0xE \<longrightarrow>
            VUState_update data s =
              ((if overload s then NothingChanged else OverloadChanged),
               \<lparr>value = value s, overload = True\<rparr>))
       \<and> (data = 0xD \<longrightarrow> VUState_update data s = (NothingChanged, s))
       \<and> (data \<le> 0xC \<longrightarrow>
            VUState_update data s =
              ((if ucast data \<noteq> value s then ValueChanged else NothingChanged),
               \<lparr>value = ucast data, overload = overload s\<rparr>))
       \<and> (fst (VUState_update data s) = ValueChanged \<longrightarrow>
            overload (snd (VUState_update data s)) = overload s)
       \<and> (fst (VUState_update data s) = OverloadChanged \<longrightarrow>
            value (snd (VUState_update data s)) = value s)
       \<and> (fst (VUState_update data s) = NothingChanged \<longrightarrow>
            snd (VUState_update data s) = s)"
proof -
  have low: "data \<le> 0xC \<Longrightarrow> data \<noteq> 0xF \<and> data \<noteq> 0xE \<and> data \<noteq> 0xD"
    by auto
  have c1: "data = 0xF \<longrightarrow>
            VUState_update data s =
              ((if overload s then OverloadChanged else NothingChanged),
               \<lparr>value = value s, overload = False\<rparr>)"
    by (cases s) (simp add: VUState_update_def)
  have c2: "data = 0xE \<longrightarrow>
            VUState_update data s =
              ((if overload s then NothingChanged else OverloadChanged),
               \<lparr>value = value s, overload = True\<rparr>)"
    by (cases s) (simp add: VUState_update_def)
  have c3: "data = 0xD \<longrightarrow> VUState_update data s = (NothingChanged, s)"
    by (simp add: VUState_update_def)
  have c4: "data \<le> 0xC \<longrightarrow>
            VUState_update data s =
              ((if ucast data \<noteq> value s then ValueChanged else NothingChanged),
               \<lparr>value = ucast data, overload = overload s\<rparr>)"
  proof
    assume le: "data \<le> 0xC"
    from low [OF le] show "VUState_update data s =
              ((if ucast data \<noteq> value s then ValueChanged else NothingChanged),
               \<lparr>value = ucast data, overload = overload s\<rparr>)"
      using nibble_neq_iff [OF assms, of "value s"]
      by (cases s) (simp add: VUState_update_def)
  qed
  have c5: "fst (VUState_update data s) = ValueChanged \<longrightarrow>
            overload (snd (VUState_update data s)) = overload s"
    by (simp add: VUState_update_def)
  have c6: "fst (VUState_update data s) = OverloadChanged \<longrightarrow>
            value (snd (VUState_update data s)) = value s"
    by (simp add: VUState_update_def)
  have c7: "fst (VUState_update data s) = NothingChanged \<longrightarrow>
            snd (VUState_update data s) = s"
    using nibble_neq_iff [OF assms, of "value s"]
    by (cases s) (auto simp add: VUState_update_def)
  from c1 c2 c3 c4 c5 c6 c7 show ?thesis by blast
qed

text \<open>The four branches at concrete inputs.\<close>

theorem VUState_update_spec_witness:
  "(0xF :: uint8_t) \<le> 0xF \<and> (0xE :: uint8_t) \<le> 0xF \<and> (0xD :: uint8_t) \<le> 0xF
   \<and> (5 :: uint8_t) \<le> 0xC \<and> (5 :: uint8_t) \<le> 0xF
   \<and> VUState_update 0xF \<lparr>value = 3, overload = True\<rparr>
       = (OverloadChanged, \<lparr>value = 3, overload = False\<rparr>)
   \<and> VUState_update 0xE \<lparr>value = 3, overload = False\<rparr>
       = (OverloadChanged, \<lparr>value = 3, overload = True\<rparr>)
   \<and> VUState_update 0xD \<lparr>value = 3, overload = True\<rparr>
       = (NothingChanged, \<lparr>value = 3, overload = True\<rparr>)
   \<and> VUState_update 5 \<lparr>value = 3, overload = True\<rparr>
       = (ValueChanged, \<lparr>value = 5, overload = True\<rparr>)"
  using VUState_update_spec [of "0xF" "\<lparr>value = 3, overload = True\<rparr>"]
        VUState_update_spec [of "0xE" "\<lparr>value = 3, overload = False\<rparr>"]
        VUState_update_spec [of "0xD" "\<lparr>value = 3, overload = True\<rparr>"]
        VUState_update_spec [of "5" "\<lparr>value = 3, overload = True\<rparr>"]
  by simp

section \<open>VUState: decay\<close>

lemma decay_zero: "value s = 0 \<Longrightarrow> decay s = (False, s)"
  by (simp add: decay_def)

lemma decay_pos:
  assumes "value s \<noteq> 0"
  shows "decay s = (True, \<lparr>value = value s - 1, overload = overload s\<rparr>)"
    and "unat (value (snd (decay s))) = unat (value s) - 1"
proof -
  from assms show "decay s = (True, \<lparr>value = value s - 1, overload = overload s\<rparr>)"
    by (cases s) (simp add: decay_def)
  from assms have "unat (value s - 1) = unat (value s) - 1"
    by (rule unat_minus_one)
  with assms show "unat (value (snd (decay s))) = unat (value s) - 1"
    by (simp add: decay_def)
qed

lemma decay_unat: "unat (value (snd (decay s))) = unat (value s) - 1"
proof (cases "value s = 0")
  case True
  then show ?thesis by (simp add: decay_zero)
next
  case False
  then show ?thesis by (rule decay_pos(2))
qed

lemma decay_overload: "overload (snd (decay s)) = overload s"
  by (simp add: decay_def)

lemma decay_n_unat: "unat (value (decay_n n s)) = unat (value s) - n"
  by (induction n arbitrary: s) (simp_all add: decay_unat)

lemma decay_n_overload: "overload (decay_n n s) = overload s"
  by (induction n arbitrary: s) (simp_all add: decay_overload)

text \<open>
  C8.  \<open>decay()\<close> on a state with value 0 returns false and leaves the state as it is;
  on a state with value \<open>v > 0\<close> it returns true, stores \<open>v - 1\<close> and leaves
  overload as it is.  So the value never wraps below zero: after \<open>n\<close> calls it is
  \<open>v - n\<close> cut off at 0 (overload still untouched), which is 0 from the \<open>v\<close>-th call
  on, for good.
\<close>

theorem decay_spec:
  "(value s = 0 \<longrightarrow> decay s = (False, s))
   \<and> (value s \<noteq> 0 \<longrightarrow>
        decay s = (True, \<lparr>value = value s - 1, overload = overload s\<rparr>)
        \<and> unat (value (snd (decay s))) = unat (value s) - 1
        \<and> 0 < unat (value s))
   \<and> unat (value (snd (decay s))) \<le> unat (value s)
   \<and> (\<forall>n. unat (value (decay_n n s)) = unat (value s) - n
          \<and> overload (decay_n n s) = overload s)
   \<and> (\<forall>n. unat (value s) \<le> n \<longrightarrow> value (decay_n n s) = 0)"
proof -
  have a: "value s = 0 \<longrightarrow> decay s = (False, s)"
    by (simp add: decay_zero)
  have b: "value s \<noteq> 0 \<longrightarrow>
        decay s = (True, \<lparr>value = value s - 1, overload = overload s\<rparr>)
        \<and> unat (value (snd (decay s))) = unat (value s) - 1
        \<and> 0 < unat (value s)"
    using decay_pos [of s] by (simp add: unat_gt_0)
  have c: "unat (value (snd (decay s))) \<le> unat (value s)"
    by (simp add: decay_unat)
  have d: "\<forall>n. unat (value (decay_n n s)) = unat (value s) - n
          \<and> overload (decay_n n s) = overload s"
    by (simp add: decay_n_unat decay_n_overload)
  have e: "\<forall>n. unat (value s) \<le> n \<longrightarrow> value (decay_n n s) = 0"
  proof (intro allI impI)
    fix n assume "unat (value s) \<le> n"
    then have "unat (value (decay_n n s)) = 0"
      by (simp add: decay_n_unat)
    then show "value (decay_n n s) = 0"
      by (simp add: unat_0_iff)
  qed
  from a b c d e show ?thesis by blast
qed

text \<open>Decay at value 0 and at value 2, and two and three calls from value 2.\<close>

theorem decay_spec_witness:
  "decay \<lparr>value = 0, overload = True\<rparr> = (False, \<lparr>value = 0, overload = True\<rparr>)
   \<and> decay \<lparr>value = 2, overload = True\<rparr> = (True, \<lparr>value = 1, overload = True\<rparr>)
   \<and> unat (2 :: 4 word) \<le> 2
   \<and> value (decay_n 2 \<lparr>value = 2, overload = True\<rparr>) = 0
   \<and> unat (2 :: 4 word) \<le> 3
   \<and> value (decay_n 3 \<lparr>value = 2, overload = True\<rparr>) = 0"
  using decay_spec [of "\<lparr>value = 0, overload = True\<rparr>"]
        decay_spec [of "\<lparr>value = 2, overload = True\<rparr>"]
  by simp

section \<open>Bank arithmetic on natural numbers\<close>

lemma sdiv_nonneg:
  fixes a b :: int
  assumes "0 \<le> a" and "0 \<le> b"
  shows "a sdiv b = a div b"
proof (cases "a = 0 \<or> b = 0")
  case True
  then show ?thesis by auto
next
  case False
  with assms have "0 < a" and "0 < b" by auto
  then show ?thesis by (simp add: signed_divide_int_def)
qed

lemma unat_ucast_7: "unat (ucast (x :: 7 word) :: uint8_t) = unat x"
  by transfer simp

lemma unat_ucast_4: "unat (ucast (x :: 4 word) :: uint8_t) = unat x"
  by transfer simp

lemma u8_diff_nat:
  fixes t b :: uint8_t
  assumes "b \<le> t"
  shows "unat (t - b) = unat t - unat b" and "uint (t - b) = int (unat t - unat b)"
    and "uint t - uint b = int (unat t - unat b)"
proof -
  from assms have le: "unat b \<le> unat t" by (simp add: word_le_nat_alt)
  from assms show 1: "unat (t - b) = unat t - unat b" by (rule unat_sub)
  then show "uint (t - b) = int (unat t - unat b)" unfolding uint_nat by simp
  from le show "uint t - uint b = int (unat t - unat b)" unfolding uint_nat by simp
qed

lemma u8_bound_nat:
  fixes d N T :: uint8_t
  shows "uint d < uint N * uint T \<longleftrightarrow> unat d < unat N * unat T"
proof -
  have "int (unat d) < int (unat N * unat T) \<longleftrightarrow> unat d < unat N * unat T"
    by (rule of_nat_less_iff)
  then show ?thesis by simp
qed

lemma matchBankable_u8_nat:
  "matchBankable_u8 t b bnk \<longleftrightarrow>
     unat b \<le> unat t \<and>
     unat t - unat b < unat (BankSize bnk) * unat (tracksPerBank bnk) \<and>
     (unat t - unat b) mod unat (tracksPerBank bnk) = 0"
proof (cases "b \<le> t")
  case True
  then show ?thesis
    using u8_diff_nat(1) [OF True] u8_bound_nat [of "t - b" "BankSize bnk" "tracksPerBank bnk"]
    by (simp add: matchBankable_u8_def Let_def word_le_nat_alt unat_mod_distrib
        flip: unat_0_iff)
next
  case False
  then show ?thesis
    by (simp add: matchBankable_u8_def Let_def word_le_nat_alt)
qed

lemma matchBankableInRange_nat:
  "matchBankableInRange bnk t b len \<longleftrightarrow>
     unat b \<le> unat t \<and>
     unat t - unat b < unat (BankSize bnk) * unat (tracksPerBank bnk) \<and>
     (unat t - unat b) mod unat (tracksPerBank bnk) < unat len"
proof (cases "b \<le> t")
  case True
  then show ?thesis
    using u8_diff_nat(1) [OF True] u8_bound_nat [of "t - b" "BankSize bnk" "tracksPerBank bnk"]
    by (simp add: matchBankableInRange_def Let_def word_le_nat_alt word_less_nat_alt
        unat_mod_distrib)
next
  case False
  then show ?thesis
    by (simp add: matchBankableInRange_def Let_def word_le_nat_alt)
qed

lemma inRange_nat:
  "inRange t b len \<longleftrightarrow> unat b \<le> unat t \<and> unat t < unat b + unat len"
proof (cases "b \<le> t")
  case True
  have "int (unat t - unat b) < int (unat len) \<longleftrightarrow> unat t - unat b < unat len"
    by (rule of_nat_less_iff)
  then have "uint t - uint b < uint len \<longleftrightarrow> unat t - unat b < unat len"
    using u8_diff_nat(3) [OF True] by simp
  with True show ?thesis
    by (auto simp add: inRange_def word_le_nat_alt)
next
  case False
  then show ?thesis
    by (simp add: inRange_def word_le_nat_alt)
qed

lemma bank_quotient_unat:
  fixes t b T :: uint8_t
  assumes "b \<le> t"
  shows "unat (word_of_int ((uint t - uint b) sdiv uint T) :: uint8_t)
           = (unat t - unat b) div unat T"
proof -
  let ?d = "unat t - unat b"
  have "(uint t - uint b) sdiv uint T = int ?d sdiv int (unat T)"
    using u8_diff_nat(3) [OF assms] by simp
  also have "\<dots> = int ?d div int (unat T)"
    by (rule sdiv_nonneg) simp_all
  also have "\<dots> = int (?d div unat T)"
    by (simp add: zdiv_int)
  finally have "(word_of_int ((uint t - uint b) sdiv uint T) :: uint8_t)
                  = of_nat (?d div unat T)"
    by simp
  moreover have "?d div unat T \<le> unat t"
    by (meson diff_le_self div_le_dividend le_trans)
  ultimately show ?thesis
    by (simp add: le_unat_uoi)
qed

lemma bank_quotient_less:
  fixes t b N T :: uint8_t
  assumes "b \<le> t" and "unat t - unat b < unat N * unat T"
  shows "(word_of_int ((uint t - uint b) sdiv uint T) :: uint8_t) < N"
  using assms(2) by (simp add: word_less_nat_alt bank_quotient_unat [OF assms(1)]
      less_mult_imp_div_less)

section \<open>The bank index of a matched address\<close>

lemma bank_index_u8:
  fixes t b N T :: uint8_t
  assumes "unat b \<le> unat t" and "unat t - unat b < unat N * unat T"
  shows "T \<noteq> 0" and "(word_of_int ((uint t - uint b) sdiv uint T) :: uint8_t) < N"
proof -
  show "T \<noteq> 0"
  proof
    assume "T = 0"
    with assms(2) show False by simp
  qed
  from assms(1) have "b \<le> t" by (simp add: word_le_nat_alt)
  then show "(word_of_int ((uint t - uint b) sdiv uint T) :: uint8_t) < N"
    using assms(2) by (rule bank_quotient_less)
qed

lemma matchBankable_u8_index:
  assumes "matchBankable_u8 t b bnk"
  shows "tracksPerBank bnk \<noteq> 0"
    and "(word_of_int ((uint t - uint b) sdiv uint (tracksPerBank bnk)) :: uint8_t) < BankSize bnk"
  using assms bank_index_u8 [of b t "BankSize bnk" "tracksPerBank bnk"]
  by (simp_all add: matchBankable_u8_nat)

lemma matchBankableInRange_index:
  assumes "matchBankableInRange bnk t b len"
  shows "tracksPerBank bnk \<noteq> 0"
    and "(word_of_int ((uint t - uint b) sdiv uint (tracksPerBank bnk)) :: uint8_t) < BankSize bnk"
  using assms bank_index_u8 [of b t "BankSize bnk" "tracksPerBank bnk"]
  by (simp_all add: matchBankableInRange_nat)

lemma matchBankable_getBankIndex:
  assumes "matchBankable target base config"
  shows "\<exists>bi. getBankIndex target base config = Some bi \<and> bi < BankSize (bank config)"
proof (cases "bankType config")
  case CHANGE_ADDRESS
  with assms have "matchBankable_u8 (getAddress target) (getAddress base) (bank config)"
    by (simp add: matchBankable_def split: if_splits)
  from matchBankable_u8_index [OF this] CHANGE_ADDRESS show ?thesis
    by (simp add: getBankIndex_def)
next
  case CHANGE_CHANNEL
  with assms have "matchBankable_u8 (getRawChannel target) (getRawChannel base) (bank config)"
    by (simp add: matchBankable_def split: if_splits)
  from matchBankable_u8_index [OF this] CHANGE_CHANNEL show ?thesis
    by (simp add: getBankIndex_def)
next
  case CHANGE_CABLENB
  with assms have
    "matchBankable_u8 (getRawCableNumber target) (getRawCableNumber base) (bank config)"
    by (simp add: matchBankable_def split: if_splits)
  from matchBankable_u8_index [OF this] CHANGE_CABLENB show ?thesis
    by (simp add: getBankIndex_def)
qed

lemma matchBankableAddressInRange_getBankIndex:
  assumes "matchBankableAddressInRange config len target base"
  shows "\<exists>bi. getBankIndex target base config = Some bi \<and> bi < BankSize (bank config)"
    and "\<exists>ri. getRangeIndex config target base = Some ri"
proof -
  have "(\<exists>bi. getBankIndex target base config = Some bi \<and> bi < BankSize (bank config))
        \<and> (\<exists>ri. getRangeIndex config target base = Some ri)"
  proof (cases "bankType config")
    case CHANGE_ADDRESS
    with assms have
      "matchBankableInRange (bank config) (getAddress target) (getAddress base) len"
      by (simp add: matchBankableAddressInRange_def split: if_splits)
    from matchBankableInRange_index [OF this] CHANGE_ADDRESS show ?thesis
      by (simp add: getBankIndex_def getRangeIndex_def)
  next
    case CHANGE_CHANNEL
    with assms have "matchBankable_u8 (getRawChannel target) (getRawChannel base) (bank config)"
      by (simp add: matchBankableAddressInRange_def split: if_splits)
    from matchBankable_u8_index [OF this] CHANGE_CHANNEL show ?thesis
      by (simp add: getBankIndex_def getRangeIndex_def)
  next
    case CHANGE_CABLENB
    with assms have
      "matchBankable_u8 (getRawCableNumber target) (getRawCableNumber base) (bank config)"
      by (simp add: matchBankableAddressInRange_def split: if_splits)
    from matchBankable_u8_index [OF this] CHANGE_CABLENB show ?thesis
      by (simp add: getBankIndex_def getRangeIndex_def)
  qed
  then show "\<exists>bi. getBankIndex target base config = Some bi \<and> bi < BankSize (bank config)"
    and "\<exists>ri. getRangeIndex config target base = Some ri"
    by simp_all
qed

section \<open>What the bankable matchers return\<close>

lemma BankableTwoByteMIDIMatcher_result:
  "\<exists>r. BankableTwoByteMIDIMatcher config address m = Some r
       \<and> (btb_match r \<longleftrightarrow> matchBankable (msg_getAddress m) address config)
       \<and> (btb_match r \<longrightarrow>
            btb_value r = (if type m = NOTE_OFF then 0 else data2 m)
            \<and> getBankIndex (msg_getAddress m) address config = Some (btb_bankIndex r)
            \<and> btb_bankIndex r < BankSize (bank config))
       \<and> (\<not> btb_match r \<longrightarrow> btb_value r = 0 \<and> btb_bankIndex r = 0)"
proof (cases "matchBankable (msg_getAddress m) address config")
  case True
  from matchBankable_getBankIndex [OF this] True show ?thesis
    by (auto simp add: BankableTwoByteMIDIMatcher_def)
next
  case False
  then show ?thesis
    by (simp add: BankableTwoByteMIDIMatcher_def)
qed

lemma BankableTwoByteRangeMIDIMatcher_result:
  "\<exists>r. BankableTwoByteRangeMIDIMatcher config address len m = Some r
       \<and> (btbr_match r \<longleftrightarrow> matchBankableAddressInRange config len (msg_getAddress m) address)
       \<and> (btbr_match r \<longrightarrow>
            btbr_value r = (if type m = NOTE_OFF then 0 else data2 m)
            \<and> getBankIndex (msg_getAddress m) address config = Some (btbr_bankIndex r)
            \<and> btbr_bankIndex r < BankSize (bank config))
       \<and> (\<not> btbr_match r \<longrightarrow> btbr_value r = 0 \<and> btbr_bankIndex r = 0 \<and> btbr_index r = 0)"
proof (cases "matchBankableAddressInRange config len (msg_getAddress m) address")
  case True
  from matchBankableAddressInRange_getBankIndex [OF this] True show ?thesis
    by (auto simp add: BankableTwoByteRangeMIDIMatcher_def)
next
  case False
  then show ?thesis
    by (simp add: BankableTwoByteRangeMIDIMatcher_def)
qed

lemma Bankable_VUMatcher_result:
  "\<exists>r. Bankable_VUMatcher config address m = Some r
       \<and> (bvu_match r \<longleftrightarrow>
            matchBankable (MIDIAddress_of (drop_bit 4 (data1 m)) (getChannelCN m)) address config)
       \<and> (bvu_match r \<longrightarrow>
            bvu_data r = data1 m AND 0x0F
            \<and> bvu_bankIndex r < BankSize (bank config))
       \<and> (\<not> bvu_match r \<longrightarrow> bvu_data r = 0 \<and> bvu_bankIndex r = 0)"
proof (cases "matchBankable (MIDIAddress_of (drop_bit 4 (data1 m)) (getChannelCN m)) address config")
  case True
  from matchBankable_getBankIndex [OF this] True show ?thesis
    by (auto simp add: Bankable_VUMatcher_def Let_def)
next
  case False
  then show ?thesis
    by (simp add: Bankable_VUMatcher_def Let_def)
qed

text \<open>The definitions that evaluate a matcher on a concrete message.\<close>

lemmas matcher_defs =
  matchBankable_def matchBankableAddressInRange_def matchBankable_u8_def
  matchBankableInRange_def inRange_def getBankIndex_def getRangeIndex_def msg_getAddress_def
  MIDIAddress_of_def getChannelCN_def isValid_def getAddress_def getChannel_def
  getRawChannel_def getCableNumber_def getRawCableNumber_def matchSingle_def
  matchAddressInRange_def TwoByteMIDIMatcher_def TwoByteRangeMIDIMatcher_def
  BankableTwoByteMIDIMatcher_def BankableTwoByteRangeMIDIMatcher_def
  VUMatcher_def Bankable_VUMatcher_def

section \<open>The bank index is below the number of banks\<close>

text \<open>
  C5.  Whenever the bankable match predicate (\<open>matchBankable\<close>, or
  \<open>matchBankableAddressInRange\<close> of the range matcher) returns true, \<open>getBankIndex\<close>
  is defined and strictly less than \<open>BankSize\<close>.  So every bankable matcher
  (two-byte, two-byte range, VU) returns a result for every message, base address and
  bank configuration, and the \<open>bankIndex\<close> of a matching result is strictly less
  than \<open>BankSize\<close>.
\<close>

theorem bankIndex_less_BankSize:
  "(matchBankable target base config \<longrightarrow>
      (\<exists>bi. getBankIndex target base config = Some bi \<and> bi < BankSize (bank config)))
   \<and> (matchBankableAddressInRange config len target base \<longrightarrow>
      (\<exists>bi. getBankIndex target base config = Some bi \<and> bi < BankSize (bank config)))
   \<and> (\<exists>r. BankableTwoByteMIDIMatcher config base m = Some r
          \<and> (btb_match r \<longrightarrow> btb_bankIndex r < BankSize (bank config)))
   \<and> (\<exists>r. BankableTwoByteRangeMIDIMatcher config base len m = Some r
          \<and> (btbr_match r \<longrightarrow> btbr_bankIndex r < BankSize (bank config)))
   \<and> (\<exists>r. Bankable_VUMatcher config base m = Some r
          \<and> (bvu_match r \<longrightarrow> bvu_bankIndex r < BankSize (bank config)))"
proof -
  have a: "matchBankable target base config \<longrightarrow>
      (\<exists>bi. getBankIndex target base config = Some bi \<and> bi < BankSize (bank config))"
    using matchBankable_getBankIndex by blast
  have b: "matchBankableAddressInRange config len target base \<longrightarrow>
      (\<exists>bi. getBankIndex target base config = Some bi \<and> bi < BankSize (bank config))"
    using matchBankableAddressInRange_getBankIndex(1) by blast
  have c: "\<exists>r. BankableTwoByteMIDIMatcher config base m = Some r
          \<and> (btb_match r \<longrightarrow> btb_bankIndex r < BankSize (bank config))"
    using BankableTwoByteMIDIMatcher_result [of config base m] by blast
  have d: "\<exists>r. BankableTwoByteRangeMIDIMatcher config base len m = Some r
          \<and> (btbr_match r \<longrightarrow> btbr_bankIndex r < BankSize (bank config))"
    using BankableTwoByteRangeMIDIMatcher_result [of config base len m] by blast
  have e: "\<exists>r. Bankable_VUMatcher config base m = Some r
          \<and> (bvu_match r \<longrightarrow> bvu_bankIndex r < BankSize (bank config))"
    using Bankable_VUMatcher_result [of config base m] by blast
  from a b c d e show ?thesis by blast
qed

text \<open>
  Address 7 against base 3 with two banks of four tracks, and track 4 against base
  track 0 for the VU matcher: bank index 1, below 2.
\<close>

theorem bankIndex_less_BankSize_witness:
  "matchBankable (msg_getAddress (ex_message NOTE_ON 7 100)) (ex_address 3)
     (ex_config CHANGE_ADDRESS)
   \<and> matchBankableAddressInRange (ex_config CHANGE_ADDRESS) 2
     (msg_getAddress (ex_message NOTE_ON 7 100)) (ex_address 3)
   \<and> getBankIndex (msg_getAddress (ex_message NOTE_ON 7 100)) (ex_address 3)
     (ex_config CHANGE_ADDRESS) = Some 1
   \<and> BankableTwoByteMIDIMatcher (ex_config CHANGE_ADDRESS) (ex_address 3)
     (ex_message NOTE_ON 7 100)
     = Some \<lparr>btb_match = True, btb_value = 100, btb_bankIndex = 1\<rparr>
   \<and> BankableTwoByteRangeMIDIMatcher (ex_config CHANGE_ADDRESS) (ex_address 3) 2
     (ex_message NOTE_ON 7 100)
     = Some \<lparr>btbr_match = True, btbr_value = 100, btbr_bankIndex = 1, btbr_index = 0\<rparr>
   \<and> Bankable_VUMatcher (ex_config CHANGE_ADDRESS) (ex_address 0)
     (ex_message CHANNEL_PRESSURE 0x45 0)
     = Some \<lparr>bvu_match = True, bvu_data = 5, bvu_bankIndex = 1\<rparr>
   \<and> (1 :: uint8_t) < BankSize (bank (ex_config CHANGE_ADDRESS))"
  using bankIndex_less_BankSize
    [of "msg_getAddress (ex_message NOTE_ON 7 100)" "ex_address 3" "ex_config CHANGE_ADDRESS"
        2 "ex_message NOTE_ON 7 100"]
    bankIndex_less_BankSize
    [of "msg_getAddress (ex_message NOTE_ON 7 100)" "ex_address 0" "ex_config CHANGE_ADDRESS"
        2 "ex_message CHANNEL_PRESSURE 0x45 0"]
  by (simp add: matcher_defs)

section \<open>Note-off normalisation\<close>

text \<open>
  C6.  Each of the four two-byte matchers (\<open>TwoByteMIDIMatcher\<close>,
  \<open>TwoByteRangeMIDIMatcher\<close>, \<open>BankableTwoByteMIDIMatcher\<close>,
  \<open>BankableTwoByteRangeMIDIMatcher\<close>) returns, for a matching message, the value 0
  when the message type is note-off and \<open>data2\<close> for every other type.
\<close>

theorem note_off_value_zero:
  "(tb_match (TwoByteMIDIMatcher address m) \<longrightarrow>
      tb_value (TwoByteMIDIMatcher address m) = (if type m = NOTE_OFF then 0 else data2 m))
   \<and> (tbr_match (TwoByteRangeMIDIMatcher address len m) \<longrightarrow>
      tbr_value (TwoByteRangeMIDIMatcher address len m)
        = (if type m = NOTE_OFF then 0 else data2 m))
   \<and> (\<exists>r. BankableTwoByteMIDIMatcher config address m = Some r
          \<and> (btb_match r \<longrightarrow> btb_value r = (if type m = NOTE_OFF then 0 else data2 m)))
   \<and> (\<exists>r. BankableTwoByteRangeMIDIMatcher config address len m = Some r
          \<and> (btbr_match r \<longrightarrow> btbr_value r = (if type m = NOTE_OFF then 0 else data2 m)))"
proof -
  have a: "tb_match (TwoByteMIDIMatcher address m) \<longrightarrow>
      tb_value (TwoByteMIDIMatcher address m) = (if type m = NOTE_OFF then 0 else data2 m)"
    by (simp add: TwoByteMIDIMatcher_def)
  have b: "tbr_match (TwoByteRangeMIDIMatcher address len m) \<longrightarrow>
      tbr_value (TwoByteRangeMIDIMatcher address len m)
        = (if type m = NOTE_OFF then 0 else data2 m)"
    by (simp add: TwoByteRangeMIDIMatcher_def)
  have c: "\<exists>r. BankableTwoByteMIDIMatcher config address m = Some r
          \<and> (btb_match r \<longrightarrow> btb_value r = (if type m = NOTE_OFF then 0 else data2 m))"
    using BankableTwoByteMIDIMatcher_result [of config address m] by blast
  have d: "\<exists>r. BankableTwoByteRangeMIDIMatcher config address len m = Some r
          \<and> (btbr_match r \<longrightarrow> btbr_value r = (if type m = NOTE_OFF then 0 else data2 m))"
    using BankableTwoByteRangeMIDIMatcher_result [of config address len m] by blast
  from a b c d show ?thesis by blast
qed

text \<open>A matching note-off and a matching message of another type, for each matcher.\<close>

theorem note_off_value_zero_witness:
  "TwoByteMIDIMatcher (ex_address 3) (ex_message NOTE_OFF 3 100)
     = \<lparr>tb_match = True, tb_value = 0\<rparr>
   \<and> TwoByteMIDIMatcher (ex_address 3) (ex_message NOTE_ON 3 100)
     = \<lparr>tb_match = True, tb_value = 100\<rparr>
   \<and> TwoByteRangeMIDIMatcher (ex_address 3) 2 (ex_message NOTE_OFF 4 100)
     = \<lparr>tbr_match = True, tbr_value = 0, tbr_index = 1\<rparr>
   \<and> TwoByteRangeMIDIMatcher (ex_address 3) 2 (ex_message CONTROL_CHANGE 4 100)
     = \<lparr>tbr_match = True, tbr_value = 100, tbr_index = 1\<rparr>
   \<and> BankableTwoByteMIDIMatcher (ex_config CHANGE_ADDRESS) (ex_address 3)
       (ex_message NOTE_OFF 7 100)
     = Some \<lparr>btb_match = True, btb_value = 0, btb_bankIndex = 1\<rparr>
   \<and> BankableTwoByteMIDIMatcher (ex_config CHANGE_ADDRESS) (ex_address 3)
       (ex_message NOTE_ON 7 100)
     = Some \<lparr>btb_match = True, btb_value = 100, btb_bankIndex = 1\<rparr>
   \<and> BankableTwoByteRangeMIDIMatcher (ex_config CHANGE_ADDRESS) (ex_address 3) 2
       (ex_message NOTE_OFF 8 100)
     = Some \<lparr>btbr_match = True, btbr_value = 0, btbr_bankIndex = 1, btbr_index = 1\<rparr>
   \<and> BankableTwoByteRangeMIDIMatcher (ex_config CHANGE_ADDRESS) (ex_address 3) 2
       (ex_message KEY_PRESSURE 8 100)
     = Some \<lparr>btbr_match = True, btbr_value = 100, btbr_bankIndex = 1, btbr_index = 1\<rparr>"
  using note_off_value_zero [of "ex_address 3" "ex_message NOTE_OFF 3 100" 2
          "ex_config CHANGE_ADDRESS"]
        note_off_value_zero [of "ex_address 3" "ex_message NOTE_ON 3 100" 2
          "ex_config CHANGE_ADDRESS"]
  by (simp add: matcher_defs)

section \<open>Invalid addresses\<close>

text \<open>
  C9.  If the address to match or the base address is invalid, \<open>matchBankable\<close> and
  \<open>matchBankableAddressInRange\<close> return false, for every bank configuration.  A
  bankable matcher configured with an invalid base address returns the no-match
  result for every message.
\<close>

theorem invalid_address_never_matches:
  "(\<not> isValid target \<or> \<not> isValid base \<longrightarrow>
      \<not> matchBankable target base config
      \<and> \<not> matchBankableAddressInRange config len target base)
   \<and> (\<not> isValid base \<longrightarrow>
      BankableTwoByteMIDIMatcher config base m
        = Some \<lparr>btb_match = False, btb_value = 0, btb_bankIndex = 0\<rparr>
      \<and> BankableTwoByteRangeMIDIMatcher config base len m
        = Some \<lparr>btbr_match = False, btbr_value = 0, btbr_bankIndex = 0, btbr_index = 0\<rparr>
      \<and> Bankable_VUMatcher config base m
        = Some \<lparr>bvu_match = False, bvu_data = 0, bvu_bankIndex = 0\<rparr>)"
  by (simp add: matchBankable_def matchBankableAddressInRange_def
      BankableTwoByteMIDIMatcher_def BankableTwoByteRangeMIDIMatcher_def
      Bankable_VUMatcher_def Let_def)

text \<open>
  An invalid base and an invalid address to match, each against a valid address 3,
  which matches itself.
\<close>

theorem invalid_address_never_matches_witness:
  "\<not> isValid \<lparr>valid = False, number = 3, channel = 0, cable = 0\<rparr>
   \<and> \<not> matchBankable (ex_address 3) \<lparr>valid = False, number = 3, channel = 0, cable = 0\<rparr>
         (ex_config CHANGE_ADDRESS)
   \<and> \<not> matchBankable \<lparr>valid = False, number = 3, channel = 0, cable = 0\<rparr> (ex_address 3)
         (ex_config CHANGE_ADDRESS)
   \<and> \<not> matchBankableAddressInRange (ex_config CHANGE_ADDRESS) 2 (ex_address 3)
         \<lparr>valid = False, number = 3, channel = 0, cable = 0\<rparr>
   \<and> BankableTwoByteMIDIMatcher (ex_config CHANGE_ADDRESS)
         \<lparr>valid = False, number = 3, channel = 0, cable = 0\<rparr> (ex_message NOTE_ON 3 100)
       = Some \<lparr>btb_match = False, btb_value = 0, btb_bankIndex = 0\<rparr>
   \<and> matchBankable (ex_address 3) (ex_address 3) (ex_config CHANGE_ADDRESS)"
  using invalid_address_never_matches
          [of "ex_address 3" "\<lparr>valid = False, number = 3, channel = 0, cable = 0\<rparr>"
              "ex_config CHANGE_ADDRESS" 2 "ex_message NOTE_ON 3 100"]
        invalid_address_never_matches
          [of "\<lparr>valid = False, number = 3, channel = 0, cable = 0\<rparr>" "ex_address 3"
              "ex_config CHANGE_ADDRESS" 2 "ex_message NOTE_ON 3 100"]
  by (simp add: matcher_defs)

section \<open>Decay with the interval Hold\<close>

lemma update_Hold: "getInterval (decayTimer el) = Hold \<Longrightarrow> update now el = el"
  by (simp add: update_def)

lemma Bankable_update_Hold:
  "getInterval (b_decayTimer el) = Hold \<Longrightarrow> Bankable_update now el = el"
  by (simp add: Bankable_update_def)

lemma fold_update_Hold:
  "getInterval (decayTimer el) = Hold \<Longrightarrow> fold update nows el = el"
  by (induction nows) (simp_all add: update_Hold)

lemma fold_Bankable_update_Hold:
  "getInterval (b_decayTimer el) = Hold \<Longrightarrow> fold Bankable_update nows el = el"
  by (induction nows) (simp_all add: Bankable_update_Hold)

text \<open>
  C7.  With the decay interval \<open>VUDecay::Hold\<close> (zero), any sequence of \<open>update()\<close>
  calls, at whatever clock readings, leaves the element as it is: neither the VU state
  (value, overload) nor the dirty flag changes.  This holds for the element and for
  the bankable element with all its slots.
\<close>

theorem Hold_never_decays:
  "(getInterval (decayTimer el) = Hold \<longrightarrow>
      fold update nows el = el
      \<and> state (fold update nows el) = state el
      \<and> dirty (fold update nows el) = dirty el)
   \<and> (getInterval (b_decayTimer bel) = Hold \<longrightarrow>
      fold Bankable_update nows bel = bel
      \<and> states (fold Bankable_update nows bel) = states bel
      \<and> b_dirty (fold Bankable_update nows bel) = b_dirty bel)"
  by (simp add: fold_update_Hold fold_Bankable_update_Hold)

text \<open>
  Three ticks, up to 100 seconds, on elements with interval 0; with the interval 150
  the same state does decay at the tick 1000.
\<close>

theorem Hold_never_decays_witness:
  "getInterval \<lparr>interval = 0, previous = 0\<rparr> = Hold
   \<and> fold update [10, 1000, 100000]
        \<lparr>state = \<lparr>value = 7, overload = True\<rparr>, dirty = False,
          decayTimer = \<lparr>interval = 0, previous = 0\<rparr>\<rparr>
      = \<lparr>state = \<lparr>value = 7, overload = True\<rparr>, dirty = False,
          decayTimer = \<lparr>interval = 0, previous = 0\<rparr>\<rparr>
   \<and> fold Bankable_update [10, 1000, 100000]
        \<lparr>matcher_config = ex_config CHANGE_ADDRESS,
          states = [\<lparr>value = 7, overload = True\<rparr>, \<lparr>value = 2, overload = False\<rparr>],
          b_dirty = False, b_decayTimer = \<lparr>interval = 0, previous = 0\<rparr>\<rparr>
      = \<lparr>matcher_config = ex_config CHANGE_ADDRESS,
          states = [\<lparr>value = 7, overload = True\<rparr>, \<lparr>value = 2, overload = False\<rparr>],
          b_dirty = False, b_decayTimer = \<lparr>interval = 0, previous = 0\<rparr>\<rparr>
   \<and> state (update 1000
        \<lparr>state = \<lparr>value = 7, overload = True\<rparr>, dirty = False,
          decayTimer = \<lparr>interval = 150, previous = 0\<rparr>\<rparr>)
      = \<lparr>value = 6, overload = True\<rparr>"
  using Hold_never_decays
    [of "\<lparr>state = \<lparr>value = 7, overload = True\<rparr>, dirty = False,
          decayTimer = \<lparr>interval = 0, previous = 0\<rparr>\<rparr>"
        "[10, 1000, 100000]"
        "\<lparr>matcher_config = ex_config CHANGE_ADDRESS,
          states = [\<lparr>value = 7, overload = True\<rparr>, \<lparr>value = 2, overload = False\<rparr>],
          b_dirty = False, b_decayTimer = \<lparr>interval = 0, previous = 0\<rparr>\<rparr>"]
  by (simp add: getInterval_def Hold_def update_def Timer_elapsed_def decay_def)

section \<open>reset()\<close>

text \<open>
  C10.  \<open>NewVU::reset()\<close> puts the VU state back to value 0 and overload false and
  leaves the dirty flag (and the timer) as it was.  \<open>Bankable::NewVU::reset()\<close> puts
  every one of the \<open>BankSize\<close> slots back to value 0 and overload false and sets
  the dirty flag.
\<close>

theorem reset_spec:
  "state (reset el) = \<lparr>value = 0, overload = False\<rparr>
   \<and> dirty (reset el) = dirty el
   \<and> decayTimer (reset el) = decayTimer el
   \<and> states (Bankable_reset bel)
       = replicate (unat (BankSize (bank (matcher_config bel)))) \<lparr>value = 0, overload = False\<rparr>
   \<and> b_dirty (Bankable_reset bel) = True
   \<and> b_decayTimer (Bankable_reset bel) = b_decayTimer bel
   \<and> matcher_config (Bankable_reset bel) = matcher_config bel
   \<and> Bankable_wf (Bankable_reset bel)"
  by (simp add: reset_def Bankable_reset_def VUState_default_def Bankable_wf_def)

text \<open>A clean element stays clean under reset; a clean bankable element becomes dirty.\<close>

theorem reset_spec_witness:
  "reset \<lparr>state = \<lparr>value = 7, overload = True\<rparr>, dirty = False,
          decayTimer = \<lparr>interval = 150, previous = 0\<rparr>\<rparr>
     = \<lparr>state = \<lparr>value = 0, overload = False\<rparr>, dirty = False,
          decayTimer = \<lparr>interval = 150, previous = 0\<rparr>\<rparr>
   \<and> Bankable_reset
        \<lparr>matcher_config = ex_config CHANGE_ADDRESS,
          states = [\<lparr>value = 7, overload = True\<rparr>, \<lparr>value = 2, overload = False\<rparr>],
          b_dirty = False, b_decayTimer = \<lparr>interval = 150, previous = 0\<rparr>\<rparr>
     = \<lparr>matcher_config = ex_config CHANGE_ADDRESS,
          states = [\<lparr>value = 0, overload = False\<rparr>, \<lparr>value = 0, overload = False\<rparr>],
          b_dirty = True, b_decayTimer = \<lparr>interval = 150, previous = 0\<rparr>\<rparr>"
  using reset_spec
    [of "\<lparr>state = \<lparr>value = 7, overload = True\<rparr>, dirty = False,
          decayTimer = \<lparr>interval = 150, previous = 0\<rparr>\<rparr>"
        "\<lparr>matcher_config = ex_config CHANGE_ADDRESS,
          states = [\<lparr>value = 7, overload = True\<rparr>, \<lparr>value = 2, overload = False\<rparr>],
          b_dirty = False, b_decayTimer = \<lparr>interval = 150, previous = 0\<rparr>\<rparr>"]
  by (simp add: reset_def Bankable_reset_def VUState_default_def)
     (simp add: numeral_2_eq_2)

section \<open>Bankable::NewVU::handleUpdate\<close>

lemma Bankable_handleUpdate_Some:
  assumes "unat (bvu_bankIndex match) < length (states el)"
  shows "\<exists>el'. Bankable_handleUpdate now match el = Some el'"
  using assms by (simp add: Bankable_handleUpdate_def Let_def split: prod.splits)

text \<open>
  What a handled message does, for any bank index inside the array: the addressed slot
  is updated, the timer is left alone when the bank is not the active one, and the
  dirty flag is set as soon as the slot reports a change, whatever the bank.
\<close>

lemma Bankable_handleUpdate_effect:
  assumes "Bankable_handleUpdate now match el = Some el'"
  shows "unat (bvu_bankIndex match) < length (states el)"
    and "states el' = (states el)[unat (bvu_bankIndex match) :=
           snd (VUState_update (bvu_data match) (states el ! unat (bvu_bankIndex match)))]"
    and "b_dirty el' \<longleftrightarrow> b_dirty el \<or>
           fst (VUState_update (bvu_data match) (states el ! unat (bvu_bankIndex match)))
             \<noteq> NothingChanged"
    and "bvu_bankIndex match \<noteq> getActiveBank el \<Longrightarrow> b_decayTimer el' = b_decayTimer el"
    and "matcher_config el' = matcher_config el"
  using assms
  by (auto simp add: Bankable_handleUpdate_def Let_def getActiveBank_def
      split: prod.splits if_splits)

lemma decay_changed_iff: "fst (decay s) \<longleftrightarrow> value s \<noteq> 0"
  by (simp add: decay_def)

text \<open>
  The decay path of the same class: the loop of \<open>update()\<close> sets the dirty flag only
  when the slot of the active bank decays.
\<close>

lemma decay_loop_dirty:
  "snd (decay_loop n active i sts d) \<longleftrightarrow>
     d \<or> (i \<le> active \<and> active < n \<and> value (sts ! active) \<noteq> 0)"
proof (induction n active i sts d rule: decay_loop.induct)
  case (1 n active i sts d)
  show ?case
  proof (cases "i < n")
    case False
    then have "decay_loop n active i sts d = (sts, d)"
      by (subst decay_loop.simps) simp
    with False show ?thesis by auto
  next
    case True
    obtain changed s' where dec: "decay (sts ! i) = (changed, s')"
      by (cases "decay (sts ! i)")
    then have ch: "changed \<longleftrightarrow> value (sts ! i) \<noteq> 0"
      using decay_changed_iff [of "sts ! i"] by simp
    from True dec have step: "decay_loop n active i sts d
        = decay_loop n active (Suc i) (sts[i := s']) (d \<or> (changed \<and> i = active))"
      by (subst decay_loop.simps) simp
    have ih: "snd (decay_loop n active (Suc i) (sts[i := s']) (d \<or> (changed \<and> i = active)))
        \<longleftrightarrow> (d \<or> (changed \<and> i = active))
              \<or> (Suc i \<le> active \<and> active < n \<and> value (sts[i := s'] ! active) \<noteq> 0)"
      using "1.IH" [OF True dec [symmetric] refl] .
    show ?thesis
    proof (cases "i = active")
      case True
      with ih ch \<open>i < n\<close> show ?thesis
        unfolding step by auto
    next
      case False
      then have "sts[i := s'] ! active = sts ! active" by simp
      with ih False show ?thesis
        unfolding step by auto
    qed
  qed
qed

lemma Bankable_update_dirty:
  assumes "b_dirty (Bankable_update now el)"
  shows "b_dirty el \<or>
         (unat (getActiveBank el) < unat (BankSize (bank (matcher_config el)))
          \<and> value (states el ! unat (getActiveBank el)) \<noteq> 0)"
  using assms
  by (auto simp add: Bankable_update_def Let_def getActiveBank_def decay_loop_dirty
      split: if_splits prod.splits dest: arg_cong [where f = snd])

text \<open>
  C1.  The property: a matched message whose bank index is not the active bank updates
  that bank's slot, does not restart the decay timer and leaves a cleared dirty flag
  cleared.  The first two hold (\<open>Bankable_handleUpdate_effect\<close>).  The dirty flag
  does not stay cleared: \<open>handleUpdate\<close> guards only the timer restart by the active
  bank and then sets \<open>dirty = true\<close> on every reported change, whereas \<open>update()\<close>
  of the same class marks dirty for the active bank only (\<open>Bankable_update_dirty\<close>).
  Here bank 0 is active, the element is clean, and the channel pressure byte \<open>0x45\<close>
  (track 4, level 5) matches with bank index 1: slot 1 takes the value 5 (as the
  per-bank accessor shows), the timer keeps its start, and the dirty flag becomes true.
\<close>

theorem Bankable_handleUpdate_nonactive_sets_dirty:
  "Bankable_VUMatcher (ex_config CHANGE_ADDRESS) (ex_address 0)
       (ex_message CHANNEL_PRESSURE 0x45 0)
     = Some \<lparr>bvu_match = True, bvu_data = 5, bvu_bankIndex = 1\<rparr>
   \<and> getActiveBank
        \<lparr>matcher_config = ex_config CHANGE_ADDRESS,
          states = [\<lparr>value = 0, overload = False\<rparr>, \<lparr>value = 0, overload = False\<rparr>],
          b_dirty = False, b_decayTimer = \<lparr>interval = 150, previous = 0\<rparr>\<rparr> = 0
   \<and> Bankable_handleUpdate 1000 \<lparr>bvu_match = True, bvu_data = 5, bvu_bankIndex = 1\<rparr>
        \<lparr>matcher_config = ex_config CHANGE_ADDRESS,
          states = [\<lparr>value = 0, overload = False\<rparr>, \<lparr>value = 0, overload = False\<rparr>],
          b_dirty = False, b_decayTimer = \<lparr>interval = 150, previous = 0\<rparr>\<rparr>
     = Some \<lparr>matcher_config = ex_config CHANGE_ADDRESS,
          states = [\<lparr>value = 0, overload = False\<rparr>, \<lparr>value = 5, overload = False\<rparr>],
          b_dirty = True, b_decayTimer = \<lparr>interval = 150, previous = 0\<rparr>\<rparr>
   \<and> getPosition_bank
        \<lparr>matcher_config = ex_config CHANGE_ADDRESS,
          states = [\<lparr>value = 0, overload = False\<rparr>, \<lparr>value = 5, overload = False\<rparr>],
          b_dirty = True, b_decayTimer = \<lparr>interval = 150, previous = 0\<rparr>\<rparr> 1
     = Some 5
   \<and> Bankable_getDirty
        \<lparr>matcher_config = ex_config CHANGE_ADDRESS,
          states = [\<lparr>value = 0, overload = False\<rparr>, \<lparr>value = 5, overload = False\<rparr>],
          b_dirty = True, b_decayTimer = \<lparr>interval = 150, previous = 0\<rparr>\<rparr>"
  by (simp add: matcher_defs Bankable_handleUpdate_def getActiveBank_def VUState_update_def
      getPosition_bank_def Bankable_getDirty_def)

section \<open>Bank membership: matchBankable\<close>

lemma getAddress_eq_iff: "getAddress t = getAddress b \<longleftrightarrow> number t = number b"
  by (simp add: getAddress_def word_unat_eq_iff unat_ucast_7)

lemma matchBankable_u8_spec:
  "matchBankable_u8 t b bnk \<longleftrightarrow> b \<le> t \<and> bankArithmetic_spec bnk t b"
proof (cases "b \<le> t")
  case True
  then show ?thesis
    using u8_diff_nat(1) [OF True]
    by (simp add: matchBankable_u8_nat bankArithmetic_spec_def Let_def word_le_nat_alt)
next
  case False
  then show ?thesis
    by (simp add: matchBankable_u8_nat word_le_nat_alt)
qed

lemma matchBankable_spec:
  "matchBankable target base config \<longleftrightarrow>
     isValid target \<and> isValid base \<and>
     selectedField (bankType config) base \<le> selectedField (bankType config) target \<and>
     isBankMember_spec target base config"
  by (cases "bankType config")
     (auto simp add: matchBankable_def isBankMember_spec_def otherFieldsEqual_def
        selectedField_def matchBankable_u8_spec getAddress_eq_iff getChannel_def
        getCableNumber_def)

lemma unat_7_eq_numeral: "unat (n :: 7 word) = 3 \<longleftrightarrow> n = 3" "unat n = 7 \<longleftrightarrow> n = 7"
  "unat n = 4 \<longleftrightarrow> n = 4" "unat n = 8 \<longleftrightarrow> n = 8"
  by (simp_all add: word_unat_eq_iff)

lemma below_8_cases:
  fixes d :: nat
  assumes "d < 8"
  obtains "d = 0" | "d = 1" | "d = 2" | "d = 3" | "d = 4" | "d = 5" | "d = 6" | "d = 7"
  using assms by linarith

lemma single_stride_arith:
  fixes m :: nat
  shows "3 \<le> m \<and> m - 3 < 8 \<and> (m - 3) mod 4 = 0 \<longleftrightarrow> m = 3 \<or> m = 7"
proof (cases "3 \<le> m \<and> m - 3 < 8")
  case True
  then have "m - 3 < 8" by simp
  then have "(m - 3) mod 4 = 0 \<longleftrightarrow> m - 3 = 0 \<or> m - 3 = 4"
    by (rule below_8_cases) simp_all
  with True show ?thesis by auto
next
  case False
  then show ?thesis by auto
qed

lemma range_stride_arith:
  fixes m :: nat
  shows "3 \<le> m \<and> m - 3 < 8 \<and> (m - 3) mod 4 < 2
           \<longleftrightarrow> m = 3 \<or> m = 4 \<or> m = 7 \<or> m = 8"
proof (cases "3 \<le> m \<and> m - 3 < 8")
  case True
  then have "m - 3 < 8" by simp
  then have "(m - 3) mod 4 < 2 \<longleftrightarrow> m - 3 = 0 \<or> m - 3 = 1 \<or> m - 3 = 4 \<or> m - 3 = 5"
    by (rule below_8_cases) simp_all
  with True show ?thesis by auto
next
  case False
  then show ?thesis by auto
qed

lemma example_bank_members:
  "matchBankable \<lparr>valid = True, number = n, channel = c, cable = k\<rparr>
       \<lparr>valid = True, number = 3, channel = c, cable = k\<rparr>
       \<lparr>bank = \<lparr>BankSize = 2, tracksPerBank = 4, selection = sel\<rparr>, bankType = CHANGE_ADDRESS\<rparr>
     \<longleftrightarrow> n = 3 \<or> n = 7"
proof -
  have "3 \<le> unat n \<and> unat n - 3 < 8 \<and> (unat n - 3) mod 4 = 0 \<longleftrightarrow> unat n = 3 \<or> unat n = 7"
    by (rule single_stride_arith)
  then show ?thesis
    by (simp add: matchBankable_def isValid_def getChannel_def getCableNumber_def
        getAddress_def matchBankable_u8_nat unat_ucast_7 unat_7_eq_numeral)
qed

text \<open>
  C2 as stated fails.  With four banks of 64 tracks and base address 64, address 0 lies
  before the base: the eight-bit difference wraps to 192, which is below
  \<open>4 \<times> 64 = 256\<close> and a multiple of 64, so the stated condition holds; the code
  tests \<open>toMatch >= base\<close> first and does not match.
\<close>

theorem isBankMember_counterexample:
  "isBankMember_spec (ex_address 0) (ex_address 64)
       \<lparr>bank = \<lparr>BankSize = 4, tracksPerBank = 64, selection = 0\<rparr>, bankType = CHANGE_ADDRESS\<rparr>
   \<and> \<not> matchBankable (ex_address 0) (ex_address 64)
       \<lparr>bank = \<lparr>BankSize = 4, tracksPerBank = 64, selection = 0\<rparr>, bankType = CHANGE_ADDRESS\<rparr>"
  by (simp add: isBankMember_spec_def otherFieldsEqual_def selectedField_def
      bankArithmetic_spec_def matcher_defs)

text \<open>
  C2, amended.  For every pair of addresses and every bank configuration,
  \<open>matchBankable\<close> returns true if and only if both addresses are valid, the selected
  field of the target is not below that of the base, all fields other than the selected
  one are identical, and the unsigned difference of the selected fields satisfies
  \<open>diff < BankSize \<times> tracksPerBank\<close> and \<open>diff mod tracksPerBank = 0\<close>.  In
  particular, with four tracks per bank, two banks, base 3 and the address changing
  per bank, exactly the addresses 3 and 7 (on the base's channel and cable) match.
\<close>

theorem matchBankable_iff:
  "(matchBankable target base config \<longleftrightarrow>
      isValid target \<and> isValid base \<and>
      selectedField (bankType config) base \<le> selectedField (bankType config) target \<and>
      isBankMember_spec target base config)
   \<and> (matchBankable \<lparr>valid = True, number = n, channel = c, cable = k\<rparr>
        \<lparr>valid = True, number = 3, channel = c, cable = k\<rparr>
        \<lparr>bank = \<lparr>BankSize = 2, tracksPerBank = 4, selection = sel\<rparr>,
          bankType = CHANGE_ADDRESS\<rparr>
      \<longleftrightarrow> n = 3 \<or> n = 7)"
  using matchBankable_spec [of target base config] example_bank_members [of n c k sel]
  by blast

text \<open>
  Address 7 against base 3 matches, address 5 does not.
\<close>

theorem matchBankable_iff_witness:
  "isValid (ex_address 7) \<and> isValid (ex_address 3)
   \<and> selectedField CHANGE_ADDRESS (ex_address 3) \<le> selectedField CHANGE_ADDRESS (ex_address 7)
   \<and> isBankMember_spec (ex_address 7) (ex_address 3) (ex_config CHANGE_ADDRESS)
   \<and> matchBankable (ex_address 7) (ex_address 3) (ex_config CHANGE_ADDRESS)
   \<and> \<not> matchBankable (ex_address 5) (ex_address 3) (ex_config CHANGE_ADDRESS)"
  using matchBankable_iff [of "ex_address 7" "ex_address 3" "ex_config CHANGE_ADDRESS" 5 0 0 0]
  by (simp add: isValid_def selectedField_def getAddress_def isBankMember_spec_def
      otherFieldsEqual_def bankArithmetic_spec_def)

section \<open>Bank membership: matchBankableAddressInRange\<close>

lemma matchBankableInRange_spec:
  "matchBankableInRange bnk t b len \<longleftrightarrow>
     b \<le> t \<and>
     (let diff = t - b in
      unat diff < unat (BankSize bnk) * unat (tracksPerBank bnk) \<and>
      unat diff mod unat (tracksPerBank bnk) < unat len)"
proof (cases "b \<le> t")
  case True
  then show ?thesis
    using u8_diff_nat(1) [OF True]
    by (simp add: matchBankableInRange_nat Let_def word_le_nat_alt)
next
  case False
  then show ?thesis
    by (simp add: matchBankableInRange_nat word_le_nat_alt)
qed

lemma inRange_number:
  "inRange (getAddress t) (getAddress b) len \<longleftrightarrow>
     unat (number b) \<le> unat (number t) \<and> unat (number t) < unat (number b) + unat len"
  by (simp add: inRange_nat getAddress_def unat_ucast_7)

lemma matchBankableAddressInRange_spec:
  "matchBankableAddressInRange config len target base \<longleftrightarrow>
     isValid target \<and> isValid base \<and>
     selectedField (bankType config) base \<le> selectedField (bankType config) target \<and>
     remainingFieldEqual (bankType config) target base \<and>
     isBankMemberInRange_spec target base len config"
proof (cases "bankType config")
  case CHANGE_ADDRESS
  then show ?thesis
    by (simp add: matchBankableAddressInRange_def isBankMemberInRange_spec_def
        remainingFieldEqual_def selectedField_def matchBankableInRange_spec
        getChannel_def getCableNumber_def) blast
next
  case CHANGE_CHANNEL
  then show ?thesis
    by (simp add: matchBankableAddressInRange_def isBankMemberInRange_spec_def
        remainingFieldEqual_def selectedField_def matchBankable_u8_spec inRange_number
        getCableNumber_def) blast
next
  case CHANGE_CABLENB
  then show ?thesis
    by (simp add: matchBankableAddressInRange_def isBankMemberInRange_spec_def
        remainingFieldEqual_def selectedField_def matchBankable_u8_spec inRange_number
        getChannel_def) blast
qed

lemma example_range_members:
  "matchBankableAddressInRange
       \<lparr>bank = \<lparr>BankSize = 2, tracksPerBank = 4, selection = sel\<rparr>, bankType = CHANGE_ADDRESS\<rparr> 2
       \<lparr>valid = True, number = n, channel = c, cable = k\<rparr>
       \<lparr>valid = True, number = 3, channel = c, cable = k\<rparr>
     \<longleftrightarrow> n = 3 \<or> n = 4 \<or> n = 7 \<or> n = 8"
proof -
  have "3 \<le> unat n \<and> unat n - 3 < 8 \<and> (unat n - 3) mod 4 < 2
          \<longleftrightarrow> unat n = 3 \<or> unat n = 4 \<or> unat n = 7 \<or> unat n = 8"
    by (rule range_stride_arith)
  then show ?thesis
    by (simp add: matchBankableAddressInRange_def isValid_def getChannel_def getCableNumber_def
        getAddress_def matchBankableInRange_nat unat_ucast_7 unat_7_eq_numeral)
qed

lemma example_range_bank_indices:
  "getBankIndex (ex_address 3) (ex_address 3) (ex_config CHANGE_ADDRESS) = Some 0"
  "getBankIndex (ex_address 4) (ex_address 3) (ex_config CHANGE_ADDRESS) = Some 0"
  "getBankIndex (ex_address 7) (ex_address 3) (ex_config CHANGE_ADDRESS) = Some 1"
  "getBankIndex (ex_address 8) (ex_address 3) (ex_config CHANGE_ADDRESS) = Some 1"
  "getRangeIndex (ex_config CHANGE_ADDRESS) (ex_address 3) (ex_address 3) = Some 0"
  "getRangeIndex (ex_config CHANGE_ADDRESS) (ex_address 4) (ex_address 3) = Some 1"
  "getRangeIndex (ex_config CHANGE_ADDRESS) (ex_address 7) (ex_address 3) = Some 0"
  "getRangeIndex (ex_config CHANGE_ADDRESS) (ex_address 8) (ex_address 3) = Some 1"
  by (simp_all add: getBankIndex_def getRangeIndex_def getAddress_def signed_divide_int_def)

text \<open>
  C3 as stated fails, at the same place: four banks of 64 tracks, base address 64,
  length 1, address 0.  The wrapped difference 192 is below 256 and
  \<open>192 mod 64 = 0 < 1\<close>, so the stated condition holds; the code tests
  \<open>toMatch >= base\<close> and does not match.
\<close>

theorem isBankMemberInRange_counterexample:
  "isBankMemberInRange_spec (ex_address 0) (ex_address 64) 1
       \<lparr>bank = \<lparr>BankSize = 4, tracksPerBank = 64, selection = 0\<rparr>, bankType = CHANGE_ADDRESS\<rparr>
   \<and> \<not> matchBankableAddressInRange
       \<lparr>bank = \<lparr>BankSize = 4, tracksPerBank = 64, selection = 0\<rparr>, bankType = CHANGE_ADDRESS\<rparr> 1
       (ex_address 0) (ex_address 64)"
  by (simp add: isBankMemberInRange_spec_def matcher_defs)

text \<open>
  C3, amended.  For every target, base, length and bank configuration,
  \<open>matchBankableAddressInRange\<close> returns true if and only if both addresses are valid,
  the selected field of the target is not below that of the base, and: when the address
  changes per bank, channel and cable are equal and the unsigned address difference
  satisfies \<open>diff < BankSize \<times> tracksPerBank\<close> and \<open>diff mod tracksPerBank < length\<close>;
  when the channel (or cable) changes per bank, \<open>base.number \<le> target.number <
  base.number + length\<close>, the cable (or channel) is equal, and the bank arithmetic holds
  on the channel (or cable) field.  In particular, with four tracks per bank, two
  banks, base 3 and length 2, exactly the addresses 3, 4, 7 and 8 match (so 5 and 6 do
  not), 3 and 4 with bank index 0, 7 and 8 with bank index 1.
\<close>

theorem matchBankableAddressInRange_iff:
  "(matchBankableAddressInRange config len target base \<longleftrightarrow>
      isValid target \<and> isValid base \<and>
      selectedField (bankType config) base \<le> selectedField (bankType config) target \<and>
      remainingFieldEqual (bankType config) target base \<and>
      isBankMemberInRange_spec target base len config)
   \<and> (matchBankableAddressInRange
        \<lparr>bank = \<lparr>BankSize = 2, tracksPerBank = 4, selection = sel\<rparr>,
          bankType = CHANGE_ADDRESS\<rparr> 2
        \<lparr>valid = True, number = n, channel = c, cable = k\<rparr>
        \<lparr>valid = True, number = 3, channel = c, cable = k\<rparr>
      \<longleftrightarrow> n = 3 \<or> n = 4 \<or> n = 7 \<or> n = 8)
   \<and> getBankIndex (ex_address 3) (ex_address 3) (ex_config CHANGE_ADDRESS) = Some 0
   \<and> getBankIndex (ex_address 4) (ex_address 3) (ex_config CHANGE_ADDRESS) = Some 0
   \<and> getBankIndex (ex_address 7) (ex_address 3) (ex_config CHANGE_ADDRESS) = Some 1
   \<and> getBankIndex (ex_address 8) (ex_address 3) (ex_config CHANGE_ADDRESS) = Some 1"
  using matchBankableAddressInRange_spec [of config len target base]
    example_range_members [of sel n c k] example_range_bank_indices(1-4)
  by blast

text \<open>
  Address 8 against base 3 with length 2 matches, addresses 5 and 6 do not.
\<close>

theorem matchBankableAddressInRange_iff_witness:
  "isValid (ex_address 8) \<and> isValid (ex_address 3)
   \<and> selectedField CHANGE_ADDRESS (ex_address 3) \<le> selectedField CHANGE_ADDRESS (ex_address 8)
   \<and> remainingFieldEqual CHANGE_ADDRESS (ex_address 8) (ex_address 3)
   \<and> isBankMemberInRange_spec (ex_address 8) (ex_address 3) 2 (ex_config CHANGE_ADDRESS)
   \<and> matchBankableAddressInRange (ex_config CHANGE_ADDRESS) 2 (ex_address 8) (ex_address 3)
   \<and> \<not> matchBankableAddressInRange (ex_config CHANGE_ADDRESS) 2 (ex_address 5) (ex_address 3)
   \<and> \<not> matchBankableAddressInRange (ex_config CHANGE_ADDRESS) 2 (ex_address 6) (ex_address 3)"
  using matchBankableAddressInRange_iff
          [of "ex_config CHANGE_ADDRESS" 2 "ex_address 8" "ex_address 3" 0 5 0 0]
        matchBankableAddressInRange_iff
          [of "ex_config CHANGE_ADDRESS" 2 "ex_address 8" "ex_address 3" 0 6 0 0]
  by (simp add: isValid_def selectedField_def getAddress_def isBankMemberInRange_spec_def
      remainingFieldEqual_def)

end
